theory Spec2Isabelle
  imports Main "HOL-Library.AList"
begin

section \<open>JavaScript strings and JSON values\<close>

text \<open>
  A JavaScript string is a sequence of UTF-16 code units; a code unit is modelled as a
  natural number. \<open>lit\<close> turns an ASCII literal of the source into its code units.
  The non-ASCII literals of the source (the Chinese template of \<open>buildRescheduleLine\<close>)
  are written as explicit code-unit lists.
\<close>

type_synonym jsstring = "nat list"

definition lit :: "string \<Rightarrow> jsstring" where
  "lit s = map of_char s"

text \<open>\<open>str.replace(/c/g, r)\<close> for a one-character pattern \<open>c\<close> and a replacement \<open>r\<close>
  without \<open>$\<close> patterns: every occurrence of \<open>c\<close> becomes \<open>r\<close>.\<close>

definition replace_g :: "nat \<Rightarrow> jsstring \<Rightarrow> jsstring \<Rightarrow> jsstring" where
  "replace_g c r s = concat (map (\<lambda>x. if x = c then r else [x]) s)"

text \<open>The code units \<open>String.prototype.trim\<close> strips: ECMAScript WhiteSpace and
  LineTerminator (TAB, LF, VT, FF, CR, SP, NBSP, U+1680, U+2000..U+200A, U+2028, U+2029,
  U+202F, U+205F, U+3000, U+FEFF).\<close>

definition is_ws :: "nat \<Rightarrow> bool" where
  "is_ws c = ((9 \<le> c \<and> c \<le> 13) \<or> c = 32 \<or> c = 160 \<or> c = 5760 \<or>
     (8192 \<le> c \<and> c \<le> 8202) \<or> c = 8232 \<or> c = 8233 \<or> c = 8239 \<or>
     c = 8287 \<or> c = 12288 \<or> c = 65279)"

definition trim :: "jsstring \<Rightarrow> jsstring" where
  "trim s = rev (dropWhile is_ws (rev (dropWhile is_ws s)))"

text \<open>\<open>s.split(sep)\<close> for a non-empty separator: the pieces between the leftmost,
  non-overlapping occurrences of \<open>sep\<close>, scanning from the left.\<close>

function split_on :: "jsstring \<Rightarrow> jsstring \<Rightarrow> jsstring list" where
  "split_on sep [] = [[]]"
| "split_on sep (c # cs) =
     (if sep \<noteq> [] \<and> take (length sep) (c # cs) = sep
      then [] # split_on sep (drop (length sep) (c # cs))
      else (case split_on sep cs of [] \<Rightarrow> [[c]] | p # ps \<Rightarrow> (c # p) # ps))"
  by pat_completeness auto
termination
  by (relation "measure (\<lambda>(sep, s). length s)") auto

text \<open>\<open>pieces.join(sep)\<close>.\<close>

fun join :: "jsstring \<Rightarrow> jsstring list \<Rightarrow> jsstring" where
  "join sep [] = []"
| "join sep [x] = x"
| "join sep (x # y # ys) = x @ sep @ join sep (y # ys)"

text \<open>What a handler can throw.\<close>

datatype error = TypeError

text \<open>
  JSON values as the backend sends them (\<open>JSON.parse\<close>). A number is held as the string
  JavaScript converts it to (\<open>Number.prototype.toString\<close>): the only things the code
  does with a number are to convert it and to test it, and JSON has no \<open>NaN\<close>, so a
  number is falsy exactly when that string is \<open>0\<close>. An object is the list of its own
  properties in order.
\<close>

datatype jsval =
    JNull
  | JBool bool
  | JNum jsstring
  | JStr jsstring
  | JArr "jsval list"
  | JObj "(jsstring \<times> jsval) list"

text \<open>Truthiness (\<open>!!v\<close>, the left operand of \<open>||\<close>).\<close>

fun truthy :: "jsval \<Rightarrow> bool" where
  "truthy JNull = False"
| "truthy (JBool b) = b"
| "truthy (JNum t) = (t \<noteq> lit ''0'')"
| "truthy (JStr s) = (s \<noteq> [])"
| "truthy (JArr xs) = True"
| "truthy (JObj kvs) = True"

text \<open>
  String conversion as a template literal \<open>`${v}`\<close> performs it on a JSON value. An
  array is joined with commas, \<open>null\<close> elements giving the empty string. An object is
  converted by its \<open>toString\<close>: the inherited one gives \<open>[object Object]\<close>; an own
  property \<open>toString\<close> of parsed JSON is never a function, the inherited \<open>valueOf\<close>
  returns the object itself, and the conversion throws a \<open>TypeError\<close>.
\<close>

fun to_str :: "jsval \<Rightarrow> error + jsstring"
  and to_strs :: "jsval list \<Rightarrow> error + jsstring list" where
  "to_str JNull = Inr (lit ''null'')"
| "to_str (JBool b) = Inr (if b then lit ''true'' else lit ''false'')"
| "to_str (JNum t) = Inr t"
| "to_str (JStr s) = Inr s"
| "to_str (JArr xs) =
     (case to_strs xs of Inl e \<Rightarrow> Inl e | Inr ts \<Rightarrow> Inr (join (lit '','') ts))"
| "to_str (JObj kvs) =
     (if map_of kvs (lit ''toString'') = None then Inr (lit ''[object Object]'')
      else Inl TypeError)"
| "to_strs [] = Inr []"
| "to_strs (x # xs) =
     (case (if x = JNull then Inr [] else to_str x) of
        Inl e \<Rightarrow> Inl e
      | Inr t \<Rightarrow> (case to_strs xs of Inl e \<Rightarrow> Inl e | Inr ts \<Rightarrow> Inr (t # ts)))"

text \<open>\<open>v || d\<close> where \<open>v\<close> is a property read (\<open>None\<close> when the property is absent).\<close>

definition or_else :: "jsval option \<Rightarrow> jsval \<Rightarrow> jsval" where
  "or_else v d = (case v of None \<Rightarrow> d | Some x \<Rightarrow> if truthy x then x else d)"

text \<open>\<open>s || d\<close> for an optional string.\<close>

definition or_str :: "jsstring option \<Rightarrow> jsstring \<Rightarrow> jsstring" where
  "or_str v d = (case v of None \<Rightarrow> d | Some x \<Rightarrow> if x \<noteq> [] then x else d)"

text \<open>\<open>xs[i]\<close> on an array: \<open>None\<close> stands for \<open>undefined\<close>.\<close>

definition nth_opt :: "'a list \<Rightarrow> nat \<Rightarrow> 'a option" where
  "nth_opt xs i = (if i < length xs then Some (xs ! i) else None)"

section \<open>The plain-text reply renderer\<close>

definition escapeHtml :: "jsstring \<Rightarrow> jsstring" where
  "escapeHtml str =
     replace_g (of_char (CHR 0x27)) (lit ''&#039;'')
       (replace_g (of_char (CHR 0x22)) (lit ''&quot;'')
         (replace_g (of_char CHR ''>'') (lit ''&gt;'')
           (replace_g (of_char CHR ''<'') (lit ''&lt;'')
             (replace_g (of_char CHR ''&'') (lit ''&amp;'') str))))"

definition formatPlainTextAsHtml :: "jsstring \<Rightarrow> jsstring" where
  "formatPlainTextAsHtml text =
     (if text = [] then []
      else concat (map
        (\<lambda>block. lit ''<p>'' @ join (lit ''<br/>'') (map escapeHtml (split_on [10] block)) @ lit ''</p>'')
        (split_on [10, 10] (trim text))))"

text \<open>
  The notions the claim about the renderer speaks of. \<open>entity_of\<close> is the HTML entity of
  a character (the character itself when it is not one of the five). \<open>tags_of\<close> lists the
  tags of a piece of HTML, each from a \<open><\<close> to the next \<open>>\<close>; \<open>text_of\<close> is what is
  left outside the tags.
\<close>

definition entity_of :: "nat \<Rightarrow> jsstring" where
  "entity_of c =
     (if c = of_char CHR ''&'' then lit ''&amp;''
      else if c = of_char CHR ''<'' then lit ''&lt;''
      else if c = of_char CHR ''>'' then lit ''&gt;''
      else if c = of_char (CHR 0x22) then lit ''&quot;''
      else if c = of_char (CHR 0x27) then lit ''&#039;''
      else [c])"

fun scan_tags :: "jsstring option \<Rightarrow> jsstring \<Rightarrow> jsstring list" where
  "scan_tags None [] = []"
| "scan_tags (Some t) [] = [t]"
| "scan_tags None (c # cs) =
     (if c = of_char CHR ''<'' then scan_tags (Some [c]) cs else scan_tags None cs)"
| "scan_tags (Some t) (c # cs) =
     (if c = of_char CHR ''>'' then (t @ [c]) # scan_tags None cs
      else scan_tags (Some (t @ [c])) cs)"

fun scan_text :: "bool \<Rightarrow> jsstring \<Rightarrow> jsstring" where
  "scan_text b [] = []"
| "scan_text False (c # cs) =
     (if c = of_char CHR ''<'' then scan_text True cs else c # scan_text False cs)"
| "scan_text True (c # cs) =
     (if c = of_char CHR ''>'' then scan_text False cs else scan_text True cs)"

definition tags_of :: "jsstring \<Rightarrow> jsstring list" where
  "tags_of s = scan_tags None s"

definition text_of :: "jsstring \<Rightarrow> jsstring" where
  "text_of s = scan_text False s"

definition render_block :: "jsstring \<Rightarrow> jsstring" where
  "render_block block =
     lit ''<p>'' @ join (lit ''<br/>'') (map escapeHtml (split_on [10] block)) @ lit ''</p>''"

section \<open>Data exchanged with the backend\<close>

datatype language = Zh | En

datatype mode = TextMode | AudioMode

text \<open>
  One proposed action. \<open>payload\<close> is \<open>None\<close> when the property is absent or \<open>null\<close>;
  an object is an association list in property order, \<open>AList.update\<close> being the
  assignment of one property.
\<close>

record action =
  action_type :: jsstring
  confidence :: jsval
  preview :: jsstring
  payload :: "(jsstring \<times> jsval) list option"

text \<open>An entry of the confirmation request: \<open>{ ...a, confirmed, skip }\<close>.\<close>

record confirm_action = action +
  confirmed :: bool
  skip :: bool

record reply =
  rd_from :: "jsstring option"
  rd_to :: "jsstring option"
  rd_subject :: "jsstring option"
  rd_html :: "jsstring option"
  rd_text :: "jsstring option"
  rd_citations :: "jsstring list option"

text \<open>The body of a response of \<open>/autopilot/run\<close>, after \<open>res?.data || res || {}\<close>:
  every property may be absent.\<close>

record run_data =
  run_id :: "jsstring option"
  transcript :: "jsstring option"
  extracted :: "jsval option"
  evidence :: "jsval option"
  reply_draft :: "reply option"
  actions_preview :: "action list option"

record exec_result =
  r_action_type :: jsstring
  r_status :: jsstring
  r_result :: jsval

record confirm_data =
  results :: "exec_result list option"

text \<open>The body of a response of \<open>/autopilot/adjust-time\<close>; \<open>adj_action\<close> is the
  property \<open>action\<close>.\<close>

record adjust_data =
  user_text :: "jsstring option"
  adj_action :: "action option"

record run_body =
  rb_mode :: mode
  rb_locale :: language
  rb_audio_base64 :: "jsstring option"
  rb_text :: "jsstring option"

record confirm_body =
  cb_run_id :: jsstring
  cb_actions :: "confirm_action list"

record adjust_body =
  ab_mode :: mode
  ab_locale :: language
  ab_action :: action
  ab_audio_base64 :: "jsstring option"
  ab_text :: "jsstring option"

text \<open>The body of the reply preview:
  \<open>replyDraft.html || formatPlainTextAsHtml(replyDraft.text || "")\<close>.\<close>

definition email_body :: "reply \<Rightarrow> jsstring" where
  "email_body r = or_str (rd_html r) (formatPlainTextAsHtml (or_str (rd_text r) []))"

section \<open>The state of the Autopilot component\<close>

text \<open>
  \<open>view\<close> holds the values one render of the component sees: the language of the
  i18n context and the thirteen \<open>useState\<close> values. A handler is a closure of the render
  that created it, so what it reads by name (\<open>lang\<close>, \<open>inputText\<close>, \<open>editedActions\<close>,
  ...) are the values of that render, also after an \<open>await\<close>; what it writes goes to
  the live state. Each handler below therefore takes the view \<open>c\<close> of its render next to
  the live state \<open>s\<close>; an updater of the form \<open>prev => ...\<close> reads \<open>s\<close>.
\<close>

record view =
  lang :: language
  inputText :: jsstring
  isRecording :: bool
  isProcessing :: bool
  isConfirming :: bool
  runResult :: "run_data option"
  confirmResult :: "confirm_data option"
  actionChecks :: "(nat \<times> bool) list"
  editedActions :: "action list"
  replyDraft :: reply
  rescheduleInputs :: "(nat \<times> jsstring) list"
  rescheduleLoading :: "(nat \<times> bool) list"
  rescheduleRecordingIndex :: "nat option"

text \<open>A capture site, and a \<open>MediaRecorder\<close> created by one: \<open>Recording\<close> after
  \<open>start()\<close>, \<open>Stopped\<close> after \<open>stop()\<close> until its \<open>onstop\<close> continuation has run,
  \<open>Delivered\<close> afterwards. \<open>rec_view\<close> is the render whose handlers \<open>onstop\<close> calls.\<close>

datatype site = Primary | Reschedule nat

datatype rec_state = Recording | Stopped | Delivered

record recorder =
  rec_site :: site
  rec_state :: rec_state
  rec_view :: view

text \<open>A backend call in flight, with what its continuation has captured: for a run,
  the index of the \<open>handleReschedule\<close> call awaiting it (if any); for an adjust-time
  call, the index and the render of the \<open>handleReschedule\<close> call that issued it.\<close>

datatype call =
    RunCall run_body "nat option"
  | ConfirmCall confirm_body
  | AdjustCall adjust_body nat view

text \<open>A message shown through \<open>AntMessage\<close>, by its translation key.\<close>

datatype notice = ErrorNotice string | WarningNotice string | SuccessNotice string

text \<open>
  The live state: the current React values, the two \<open>useRef\<close> cells (a recorder is
  named by its position in \<open>recorders\<close>), the recorders created so far, the calls in
  flight in the order they were issued, and the notices shown so far.
\<close>

record state = view +
  mediaRecorderRef :: "nat option"
  rescheduleRecorderRef :: "nat option"
  recorders :: "recorder list"
  inflight :: "call list"
  notices :: "notice list"

definition empty_reply :: reply where
  "empty_reply = \<lparr>rd_from = None, rd_to = None, rd_subject = None, rd_html = None,
     rd_text = None, rd_citations = None\<rparr>"

definition init :: state where
  "init = \<lparr>lang = En, inputText = [], isRecording = False, isProcessing = False,
     isConfirming = False, runResult = None, confirmResult = None, actionChecks = [],
     editedActions = [], replyDraft = empty_reply, rescheduleInputs = [],
     rescheduleLoading = [], rescheduleRecordingIndex = None,
     mediaRecorderRef = None, rescheduleRecorderRef = None, recorders = [],
     inflight = [], notices = []\<rparr>"

text \<open>The render of the live state.\<close>

definition render :: "state \<Rightarrow> view" where
  "render s = view.truncate s"

section \<open>The handlers\<close>

subsection \<open>Analyze: \<open>handleRun\<close>\<close>

text \<open>The request body built before the \<open>await\<close> (\<open>overrideText ?? inputText\<close>).\<close>

definition run_request :: "view \<Rightarrow> mode \<Rightarrow> jsstring option \<Rightarrow> jsstring option \<Rightarrow> run_body" where
  "run_request c m audioB64 overrideText =
     (if m = AudioMode
      then \<lparr>rb_mode = m, rb_locale = lang c, rb_audio_base64 = audioB64, rb_text = None\<rparr>
      else \<lparr>rb_mode = m, rb_locale = lang c, rb_audio_base64 = None,
             rb_text = Some (case overrideText of Some t \<Rightarrow> t | None \<Rightarrow> inputText c)\<rparr>)"

text \<open>\<open>handleRun\<close> up to its \<open>await\<close>: the three setters, then the request is sent.
  \<open>awaiting\<close> is the index of the \<open>handleReschedule\<close> call that awaits this run, if any.\<close>

definition handleRun_issue ::
    "view \<Rightarrow> mode \<Rightarrow> jsstring option \<Rightarrow> jsstring option \<Rightarrow> nat option \<Rightarrow> state \<Rightarrow> state" where
  "handleRun_issue c m audioB64 overrideText awaiting s =
     s\<lparr>isProcessing := True, runResult := None, confirmResult := None,
       inflight := inflight s @ [RunCall (run_request c m audioB64 overrideText) awaiting]\<rparr>"

text \<open>The \<open>forEach\<close> that checks every action: \<open>checks[i] = true\<close> for each index.\<close>

definition init_checks :: "action list \<Rightarrow> (nat \<times> bool) list" where
  "init_checks acts = foldl (\<lambda>checks i. AList.update i True checks) [] [0..<length acts]"

text \<open>\<open>handleRun\<close> after the \<open>await\<close> when the call resolves with \<open>data\<close>, \<open>finally\<close>
  included.\<close>

definition handleRun_resolved :: "run_data \<Rightarrow> state \<Rightarrow> state" where
  "handleRun_resolved data s =
     (let acts = (case actions_preview data of None \<Rightarrow> [] | Some as \<Rightarrow> as)
      in s\<lparr>runResult := Some data,
           replyDraft := (case reply_draft data of None \<Rightarrow> empty_reply | Some r \<Rightarrow> r),
           actionChecks := init_checks acts,
           editedActions := acts,
           isProcessing := False\<rparr>)"

text \<open>\<open>handleRun\<close> when the call rejects: \<open>catch\<close>, then \<open>finally\<close>.\<close>

definition handleRun_rejected :: "state \<Rightarrow> state" where
  "handleRun_rejected s =
     s\<lparr>notices := notices s @ [ErrorNotice ''autopilot.runError''], isProcessing := False\<rparr>"

subsection \<open>The action registry: checkboxes, payload edits, serialization\<close>

text \<open>\<open>!!m[i]\<close> for an object \<open>m\<close> of booleans keyed by index.\<close>

definition flag :: "(nat \<times> bool) list \<Rightarrow> nat \<Rightarrow> bool" where
  "flag m i = (case map_of m i of None \<Rightarrow> False | Some b \<Rightarrow> b)"

text \<open>The checkbox handler: \<open>setActionChecks((prev) => ({ ...prev, [i]: checked }))\<close>.\<close>

definition toggle :: "nat \<Rightarrow> bool \<Rightarrow> state \<Rightarrow> state" where
  "toggle i enabled s = s\<lparr>actionChecks := AList.update i enabled (actionChecks s)\<rparr>"

text \<open>\<open>handleActionPayloadEdit\<close>. With \<open>index\<close> out of range \<open>copy[index]\<close> is
  \<open>undefined\<close>: spreading it is harmless, reading \<open>copy[index].payload\<close> throws a
  \<open>TypeError\<close> inside the updater.\<close>

definition handleActionPayloadEdit :: "nat \<Rightarrow> jsstring \<Rightarrow> jsval \<Rightarrow> state \<Rightarrow> error + state" where
  "handleActionPayloadEdit index field v s =
     (case nth_opt (editedActions s) index of
        None \<Rightarrow> Inl TypeError
      | Some a \<Rightarrow>
          Inr (s\<lparr>editedActions := (editedActions s)
                 [index := a\<lparr>payload :=
                     Some (AList.update field v (case payload a of None \<Rightarrow> [] | Some p \<Rightarrow> p))\<rparr>]\<rparr>))"

text \<open>The \<open>map\<close> of \<open>handleConfirm\<close>: one entry per action, in order.\<close>

definition serialize :: "action list \<Rightarrow> (nat \<times> bool) list \<Rightarrow> confirm_action list" where
  "serialize acts checks =
     map (\<lambda>(i, a). \<lparr>action_type = action_type a, confidence = confidence a,
                     preview = preview a, payload = payload a,
                     confirmed = flag checks i, skip = (\<not> flag checks i)\<rparr>)
         (enumerate 0 acts)"

subsection \<open>Confirm: \<open>handleConfirm\<close>\<close>

text \<open>\<open>runResult?.run_id\<close> is truthy.\<close>

definition has_run_id :: "run_data option \<Rightarrow> bool" where
  "has_run_id r =
     (case r of None \<Rightarrow> False
      | Some d \<Rightarrow> (case run_id d of None \<Rightarrow> False | Some i \<Rightarrow> i \<noteq> []))"

definition run_id_of :: "run_data option \<Rightarrow> jsstring" where
  "run_id_of r =
     (case r of None \<Rightarrow> []
      | Some d \<Rightarrow> (case run_id d of None \<Rightarrow> [] | Some i \<Rightarrow> i))"

text \<open>\<open>handleConfirm\<close> up to its \<open>await\<close>, with what it did: \<open>Inr None\<close> when the
  guard returned at once, \<open>Inr (Some body)\<close> when the request was sent. Nothing in this
  part of the source throws.\<close>

definition handleConfirm :: "view \<Rightarrow> state \<Rightarrow> (error + confirm_body option) \<times> state" where
  "handleConfirm c s =
     (if \<not> has_run_id (runResult c) then (Inr None, s)
      else
        (let body = \<lparr>cb_run_id = run_id_of (runResult c),
                      cb_actions = serialize (editedActions c) (actionChecks c)\<rparr>
         in (Inr (Some body),
             s\<lparr>isConfirming := True, inflight := inflight s @ [ConfirmCall body]\<rparr>)))"

definition calendarFailed :: "confirm_data \<Rightarrow> bool" where
  "calendarFailed data =
     list_ex (\<lambda>r. r_action_type r = lit ''create_meeting'' \<and>
                  (r_status r = lit ''failed'' \<or> r_status r = lit ''blocked''))
       (case results data of None \<Rightarrow> [] | Some rs \<Rightarrow> rs)"

definition handleConfirm_resolved :: "confirm_data \<Rightarrow> state \<Rightarrow> state" where
  "handleConfirm_resolved data s =
     s\<lparr>confirmResult := Some data,
       notices := notices s @
         [if calendarFailed data then WarningNotice ''autopilot.confirmCalendarFailed''
          else SuccessNotice ''autopilot.confirmSuccess''],
       isConfirming := False\<rparr>"

definition handleConfirm_rejected :: "state \<Rightarrow> state" where
  "handleConfirm_rejected s =
     s\<lparr>notices := notices s @ [ErrorNotice ''autopilot.confirmError''], isConfirming := False\<rparr>"

subsection \<open>Audio capture\<close>

text \<open>What happens when a start handler asks for the microphone: the platform has no
  \<open>getUserMedia\<close>, or the \<open>try\<close> block throws (access declined), or it completes.\<close>

datatype media = Unsupported | Denied | Granted

definition handleStartRecording :: "view \<Rightarrow> media \<Rightarrow> state \<Rightarrow> state" where
  "handleStartRecording c m s =
     (case m of
        Unsupported \<Rightarrow> s\<lparr>notices := notices s @ [ErrorNotice ''errors.browserNotSupported'']\<rparr>
      | Denied \<Rightarrow> s\<lparr>notices := notices s @ [ErrorNotice ''errors.micDenied'']\<rparr>
      | Granted \<Rightarrow>
          s\<lparr>isRecording := True,
            mediaRecorderRef := Some (length (recorders s)),
            recorders := recorders s @
              [\<lparr>rec_site = Primary, rec_state = Recording, rec_view = c\<rparr>]\<rparr>)"

definition stop_recorder :: "nat \<Rightarrow> recorder list \<Rightarrow> recorder list" where
  "stop_recorder r rs = (if r < length rs then rs[r := (rs ! r)\<lparr>rec_state := Stopped\<rparr>] else rs)"

definition handleStopRecording :: "state \<Rightarrow> state" where
  "handleStopRecording s =
     (case mediaRecorderRef s of
        None \<Rightarrow> s
      | Some r \<Rightarrow> s\<lparr>isRecording := False, mediaRecorderRef := None,
                     recorders := stop_recorder r (recorders s)\<rparr>)"

definition handleRescheduleStartRecording :: "view \<Rightarrow> nat \<Rightarrow> media \<Rightarrow> state \<Rightarrow> state" where
  "handleRescheduleStartRecording c index m s =
     (case m of
        Unsupported \<Rightarrow> s\<lparr>notices := notices s @ [ErrorNotice ''errors.browserNotSupported'']\<rparr>
      | Denied \<Rightarrow> s\<lparr>notices := notices s @ [ErrorNotice ''errors.micDenied'']\<rparr>
      | Granted \<Rightarrow>
          s\<lparr>rescheduleRecordingIndex := Some index,
            rescheduleRecorderRef := Some (length (recorders s)),
            recorders := recorders s @
              [\<lparr>rec_site = Reschedule index, rec_state = Recording, rec_view = c\<rparr>]\<rparr>)"

definition handleRescheduleStopRecording :: "state \<Rightarrow> state" where
  "handleRescheduleStopRecording s =
     (case rescheduleRecorderRef s of
        None \<Rightarrow> s
      | Some r \<Rightarrow> s\<lparr>rescheduleRecordingIndex := None, rescheduleRecorderRef := None,
                     recorders := stop_recorder r (recorders s)\<rparr>)"

text \<open>The capture sites whose recorder is recording.\<close>

definition recording_sites :: "state \<Rightarrow> site list" where
  "recording_sites s = map rec_site (filter (\<lambda>r. rec_state r = Recording) (recorders s))"

subsection \<open>Reschedule: \<open>handleReschedule\<close>\<close>

definition appendToAnalyzeInput :: "view \<Rightarrow> jsstring \<Rightarrow> state \<Rightarrow> jsstring \<times> state" where
  "appendToAnalyzeInput c text s =
     (if text = [] then ([], s)
      else
        (let next = (if inputText c \<noteq> [] then inputText c @ [10] @ text else text)
         in (next, s\<lparr>inputText := next\<rparr>)))"

text \<open>\<open>buildRescheduleLine\<close>: the template literal converts title, date, start and end
  in this order and throws when one of the conversions does.\<close>

definition buildRescheduleLine :: "view \<Rightarrow> action \<Rightarrow> jsstring \<Rightarrow> error + jsstring" where
  "buildRescheduleLine c act rawText =
     (let p = (case payload act of None \<Rightarrow> [] | Some kvs \<Rightarrow> kvs);
          title = or_else (map_of p (lit ''title''))
                    (JStr (if lang c = Zh then [26085, 31243, 23433, 25490] else lit ''Meeting''));
          date = or_else (map_of p (lit ''date'')) (JStr []);
          start = or_else (map_of p (lit ''start_time'')) (JStr []);
          end_t = or_else (map_of p (lit ''end_time'')) (JStr []);
          tz = lit ''America/Toronto''
      in case to_str title of
           Inl e \<Rightarrow> Inl e
         | Inr title_s \<Rightarrow>
         (case to_str date of
           Inl e \<Rightarrow> Inl e
         | Inr date_s \<Rightarrow>
         (case to_str start of
           Inl e \<Rightarrow> Inl e
         | Inr start_s \<Rightarrow>
         (case to_str end_t of
           Inl e \<Rightarrow> Inl e
         | Inr end_s \<Rightarrow>
             Inr (if lang c = Zh
                  then trim ([25913, 26399, 26356, 26032, 65306, 23558, 12300] @ title_s @
                             [12301, 35843, 25972, 20026, 32] @ date_s @ [32] @ start_s @
                             [45] @ end_s @ [65288, 26102, 21306, 65306] @ tz @ [65289, 12290])
                  else trim (lit ''Reschedule update: move '' @ [34] @ title_s @ [34] @
                             lit '' to '' @ date_s @ lit '' '' @ start_s @ lit ''-'' @
                             end_s @ lit '' (Timezone: '' @ tz @ lit '').''))))))"

text \<open>The \<open>finally\<close> of \<open>handleReschedule\<close>.\<close>

definition reschedule_finally :: "nat \<Rightarrow> state \<Rightarrow> state" where
  "reschedule_finally index s =
     s\<lparr>rescheduleLoading := AList.update index False (rescheduleLoading s)\<rparr>"

text \<open>\<open>handleReschedule\<close> up to its \<open>await\<close>; without an action at \<open>index\<close> it returns
  at once.\<close>

definition handleReschedule :: "view \<Rightarrow> nat \<Rightarrow> mode \<Rightarrow> jsstring option \<Rightarrow> state \<Rightarrow> state" where
  "handleReschedule c index m audioB64 s =
     (case nth_opt (editedActions c) index of
        None \<Rightarrow> s
      | Some act \<Rightarrow>
          (let body =
                 (if m = AudioMode
                  then \<lparr>ab_mode = m, ab_locale = lang c, ab_action = act,
                         ab_audio_base64 = audioB64, ab_text = None\<rparr>
                  else \<lparr>ab_mode = m, ab_locale = lang c, ab_action = act,
                         ab_audio_base64 = None,
                         ab_text = Some (trim (or_str (map_of (rescheduleInputs c) index) []))\<rparr>)
           in s\<lparr>rescheduleLoading := AList.update index True (rescheduleLoading s),
                inflight := inflight s @ [AdjustCall body index c]\<rparr>))"

text \<open>The line \<open>handleReschedule\<close> resolves from the response, or what building it
  throws.\<close>

definition normalizedLine :: "view \<Rightarrow> adjust_body \<Rightarrow> adjust_data \<Rightarrow> error + jsstring" where
  "normalizedLine c body data =
     (let rawText = trim (or_str (user_text data) (or_str (ab_text body) []))
      in case adj_action data of
           Some a \<Rightarrow> buildRescheduleLine c a rawText
         | None \<Rightarrow> Inr rawText)"

text \<open>The \<open>catch\<close> of \<open>handleReschedule\<close>, then its \<open>finally\<close>: for a rejected
  adjust-time call and for anything thrown after it resolved.\<close>

definition handleReschedule_rejected :: "nat \<Rightarrow> state \<Rightarrow> state" where
  "handleReschedule_rejected index s =
     reschedule_finally index
       (s\<lparr>notices := notices s @ [ErrorNotice ''autopilot.rescheduleError'']\<rparr>)"

text \<open>\<open>handleReschedule\<close> after the adjust-time call resolved with \<open>data\<close>, up to the
  \<open>await\<close> of the nested \<open>handleRun\<close> (whose end runs \<open>reschedule_finally\<close>), or to the
  end when the line is empty or building it threw.\<close>

definition handleReschedule_resolved ::
    "view \<Rightarrow> nat \<Rightarrow> adjust_body \<Rightarrow> adjust_data \<Rightarrow> state \<Rightarrow> state" where
  "handleReschedule_resolved c index body data s =
     (case normalizedLine c body data of
        Inl e \<Rightarrow> handleReschedule_rejected index s
      | Inr line \<Rightarrow>
          if line \<noteq> [] then
            (let (nextInput, s1) = appendToAnalyzeInput c line s;
                 s2 = s1\<lparr>rescheduleInputs := AList.update index [] (rescheduleInputs s1)\<rparr>
             in handleRun_issue c TextMode None (Some nextInput) (Some index) s2)
          else reschedule_finally index s)"

section \<open>Events\<close>

text \<open>
  What can happen to the mounted component: a user action on a control the JSX offers,
  the end of a recording, or the settling of a call in flight. \<open>fire\<close> gives the state
  after an event, and \<open>None\<close> when the JSX does not offer the control in that state
  (not rendered, \<open>disabled\<close>, or a button in its \<open>loading\<close> state) or the event names
  no recorder or call. A user event runs the handler of the current render.
\<close>

datatype response = RunOk run_data | ConfirmOk confirm_data | AdjustOk adjust_data | Failed

datatype event =
    ChangeInput jsstring
  | ClickAnalyze
  | ClickRecord media
  | RecorderStop nat "jsstring option"
  | ToggleCheck nat bool
  | EditPayload nat jsstring jsstring
  | ClickConfirm
  | ChangeRescheduleInput nat jsstring
  | PressEnterReschedule nat
  | ClickReschedule nat
  | ClickRescheduleRecord nat media
  | Settle nat response
  | ToggleLang

text \<open>\<open>runResult && !isProcessing\<close>: the results section is rendered.\<close>

definition results_visible :: "state \<Rightarrow> bool" where
  "results_visible s = (runResult s \<noteq> None \<and> \<not> isProcessing s)"

text \<open>The reschedule controls of result \<open>i\<close> are rendered.\<close>

definition reschedule_visible :: "state \<Rightarrow> nat \<Rightarrow> bool" where
  "reschedule_visible s i =
     (results_visible s \<and>
      (case confirmResult s of
         None \<Rightarrow> False
       | Some d \<Rightarrow>
           (case results d of
              None \<Rightarrow> False
            | Some rs \<Rightarrow>
                (case nth_opt rs i of
                   None \<Rightarrow> False
                 | Some r \<Rightarrow> r_status r = lit ''blocked'' \<and>
                             r_action_type r = lit ''create_meeting''))))"

text \<open>\<open>Object.values(actionChecks).some(Boolean)\<close>.\<close>

definition anyChecked :: "state \<Rightarrow> bool" where
  "anyChecked s = list_ex snd (actionChecks s)"

definition remove_nth :: "nat \<Rightarrow> 'a list \<Rightarrow> 'a list" where
  "remove_nth k xs = take k xs @ drop (Suc k) xs"

text \<open>The end of a run awaited by a \<open>handleReschedule\<close> call resumes that call at its
  \<open>finally\<close>.\<close>

definition after_run :: "nat option \<Rightarrow> state \<Rightarrow> state" where
  "after_run awaiting s = (case awaiting of None \<Rightarrow> s | Some i \<Rightarrow> reschedule_finally i s)"

text \<open>The \<open>k\<close>-th call in flight settles with \<open>resp\<close>.\<close>

definition settle :: "nat \<Rightarrow> response \<Rightarrow> state \<Rightarrow> state option" where
  "settle k resp s =
     (case nth_opt (inflight s) k of
        None \<Rightarrow> None
      | Some cl \<Rightarrow>
          (let s0 = s\<lparr>inflight := remove_nth k (inflight s)\<rparr>
           in case cl of
                RunCall b awaiting \<Rightarrow>
                  (case resp of
                     RunOk d \<Rightarrow> Some (after_run awaiting (handleRun_resolved d s0))
                   | Failed \<Rightarrow> Some (after_run awaiting (handleRun_rejected s0))
                   | _ \<Rightarrow> None)
              | ConfirmCall b \<Rightarrow>
                  (case resp of
                     ConfirmOk d \<Rightarrow> Some (handleConfirm_resolved d s0)
                   | Failed \<Rightarrow> Some (handleConfirm_rejected s0)
                   | _ \<Rightarrow> None)
              | AdjustCall b i c \<Rightarrow>
                  (case resp of
                     AdjustOk d \<Rightarrow> Some (handleReschedule_resolved c i b d s0)
                   | Failed \<Rightarrow> Some (handleReschedule_rejected i s0)
                   | _ \<Rightarrow> None)))"

text \<open>The \<open>onstop\<close> continuation of recorder \<open>r\<close>, with the base64 text the
  \<open>FileReader\<close> produced, run in the render that started the recorder.\<close>

definition recorder_stopped :: "nat \<Rightarrow> jsstring option \<Rightarrow> state \<Rightarrow> state option" where
  "recorder_stopped r b64 s =
     (case nth_opt (recorders s) r of
        None \<Rightarrow> None
      | Some rc \<Rightarrow>
          if rec_state rc \<noteq> Stopped then None
          else
            (let s0 = s\<lparr>recorders := (recorders s)[r := rc\<lparr>rec_state := Delivered\<rparr>]\<rparr>
             in case rec_site rc of
                  Primary \<Rightarrow> Some (handleRun_issue (rec_view rc) AudioMode b64 None None s0)
                | Reschedule i \<Rightarrow> Some (handleReschedule (rec_view rc) i AudioMode b64 s0)))"

definition payload_keys :: "action \<Rightarrow> jsstring list" where
  "payload_keys a = map fst (case payload a of None \<Rightarrow> [] | Some p \<Rightarrow> p)"

definition fire :: "event \<Rightarrow> state \<Rightarrow> state option" where
  "fire e s =
     (case e of
        ChangeInput t \<Rightarrow>
          if isProcessing s then None else Some (s\<lparr>inputText := t\<rparr>)
      | ClickAnalyze \<Rightarrow>
          if trim (inputText s) = [] \<or> isProcessing s then None
          else Some (handleRun_issue (render s) TextMode None None None s)
      | ClickRecord m \<Rightarrow>
          if isProcessing s then None
          else if isRecording s then Some (handleStopRecording s)
          else Some (handleStartRecording (render s) m s)
      | RecorderStop r b64 \<Rightarrow> recorder_stopped r b64 s
      | ToggleCheck i b \<Rightarrow>
          if results_visible s \<and> i < length (editedActions s) then Some (toggle i b s) else None
      | EditPayload i k v \<Rightarrow>
          (case nth_opt (editedActions s) i of
             None \<Rightarrow> None
           | Some a \<Rightarrow>
               if results_visible s \<and> k \<in> set (payload_keys a)
               then (case handleActionPayloadEdit i k (JStr v) s of
                       Inl err \<Rightarrow> None | Inr s' \<Rightarrow> Some s')
               else None)
      | ClickConfirm \<Rightarrow>
          if results_visible s \<and> anyChecked s \<and> \<not> isConfirming s
          then Some (snd (handleConfirm (render s) s)) else None
      | ChangeRescheduleInput i t \<Rightarrow>
          if reschedule_visible s i \<and> \<not> flag (rescheduleLoading s) i
          then Some (s\<lparr>rescheduleInputs := AList.update i t (rescheduleInputs s)\<rparr>) else None
      | PressEnterReschedule i \<Rightarrow>
          if reschedule_visible s i \<and> \<not> flag (rescheduleLoading s) i
          then (if trim (or_str (map_of (rescheduleInputs s) i) []) \<noteq> []
                then Some (handleReschedule (render s) i TextMode None s)
                else Some s)
          else None
      | ClickReschedule i \<Rightarrow>
          if reschedule_visible s i \<and> \<not> flag (rescheduleLoading s) i \<and>
             trim (or_str (map_of (rescheduleInputs s) i) []) \<noteq> []
          then Some (handleReschedule (render s) i TextMode None s) else None
      | ClickRescheduleRecord i m \<Rightarrow>
          if reschedule_visible s i \<and> \<not> flag (rescheduleLoading s) i
          then (if rescheduleRecordingIndex s = Some i
                then Some (handleRescheduleStopRecording s)
                else Some (handleRescheduleStartRecording (render s) i m s))
          else None
      | Settle k resp \<Rightarrow> settle k resp s
      | ToggleLang \<Rightarrow> Some (s\<lparr>lang := (if lang s = Zh then En else Zh)\<rparr>))"

text \<open>A list of events from a state; \<open>None\<close> as soon as one is not offered.\<close>

fun run_events :: "event list \<Rightarrow> state \<Rightarrow> state option" where
  "run_events [] s = Some s"
| "run_events (e # es) s = (case fire e s of None \<Rightarrow> None | Some s' \<Rightarrow> run_events es s')"

section \<open>Registry operations in sequence\<close>

text \<open>The two edits the action list offers, and a sequence of them; the sequence stops
  at the first call that throws.\<close>

datatype registry_op = Toggle nat bool | EditPayloadField nat jsstring jsval

fun op_index :: "registry_op \<Rightarrow> nat" where
  "op_index (Toggle i b) = i"
| "op_index (EditPayloadField i f v) = i"

fun apply_op :: "registry_op \<Rightarrow> state \<Rightarrow> error + state" where
  "apply_op (Toggle i b) s = Inr (toggle i b s)"
| "apply_op (EditPayloadField i f v) s = handleActionPayloadEdit i f v s"

fun apply_ops :: "registry_op list \<Rightarrow> state \<Rightarrow> error + state" where
  "apply_ops [] s = Inr s"
| "apply_ops (x # xs) s = (case apply_op x s of Inl e \<Rightarrow> Inl e | Inr s' \<Rightarrow> apply_ops xs s')"

text \<open>\<open>a.payload?.[f]\<close>: one field of an action's payload.\<close>

definition payload_field :: "action \<Rightarrow> jsstring \<Rightarrow> jsval option" where
  "payload_field a f = (case payload a of None \<Rightarrow> None | Some p \<Rightarrow> map_of p f)"

section \<open>The text of a reschedule line\<close>

text \<open>The two template literals of \<open>buildRescheduleLine\<close> before \<open>trim\<close>, and the text
  a payload field contributes (\<open>`${payload[k] || d}`\<close>), or what converting it throws.\<close>

definition line_template ::
    "language \<Rightarrow> jsstring \<Rightarrow> jsstring \<Rightarrow> jsstring \<Rightarrow> jsstring \<Rightarrow> jsstring \<Rightarrow> jsstring" where
  "line_template l title date start end_t tz =
     (if l = Zh
      then [25913, 26399, 26356, 26032, 65306, 23558, 12300] @ title @
           [12301, 35843, 25972, 20026, 32] @ date @ [32] @ start @ [45] @ end_t @
           [65288, 26102, 21306, 65306] @ tz @ [65289, 12290]
      else lit ''Reschedule update: move '' @ [34] @ title @ [34] @ lit '' to '' @ date @
           lit '' '' @ start @ lit ''-'' @ end_t @ lit '' (Timezone: '' @ tz @ lit '').'')"

definition field_text :: "action \<Rightarrow> string \<Rightarrow> jsstring \<Rightarrow> error + jsstring" where
  "field_text a k d =
     to_str (or_else (map_of (case payload a of None \<Rightarrow> [] | Some p \<Rightarrow> p) (lit k)) (JStr d))"

definition default_title :: "language \<Rightarrow> jsstring" where
  "default_title l = (if l = Zh then [26085, 31243, 23433, 25490] else lit ''Meeting'')"

section \<open>Example data\<close>

text \<open>A text with each of the five characters, blank lines and surrounding blanks.\<close>

definition sample_text :: jsstring where
  "sample_text = lit ''  a<b'' @ [10, 10, 10] @ lit ''c & d'' @ [34, 10, 39] @ lit ''x  ''"

text \<open>A meeting action, a run that proposes it, and a confirmation the calendar
  blocked.\<close>

definition demo_action :: action where
  "demo_action =
     \<lparr>action_type = lit ''create_meeting'', confidence = JNum (lit ''1''), preview = lit ''Demo'',
      payload = Some [(lit ''title'', JStr (lit ''Demo'')),
                      (lit ''date'', JStr (lit ''2026-02-14'')),
                      (lit ''start_time'', JStr (lit ''14:00'')),
                      (lit ''end_time'', JStr (lit ''15:00''))]\<rparr>"

definition demo_run :: "string \<Rightarrow> run_data" where
  "demo_run i =
     \<lparr>run_id = Some (lit i), transcript = None, extracted = None, evidence = None,
      reply_draft = None, actions_preview = Some [demo_action]\<rparr>"

definition demo_blocked :: confirm_data where
  "demo_blocked =
     \<lparr>results = Some [\<lparr>r_action_type = lit ''create_meeting'', r_status = lit ''blocked'',
                        r_result = JObj []\<rparr>]\<rparr>"

text \<open>The user types a request, analyzes it, confirms the proposed meeting, and the
  calendar blocks it: the reschedule controls of result 0 are now offered.\<close>

definition to_blocked :: "event list" where
  "to_blocked =
     [ChangeInput (lit ''a''), ClickAnalyze, Settle 0 (RunOk (demo_run ''r0'')),
      ClickConfirm, Settle 0 (ConfirmOk demo_blocked)]"

definition blocked_state :: state where
  "blocked_state =
     init\<lparr>inputText := lit ''a'', runResult := Some (demo_run ''r0''),
          confirmResult := Some demo_blocked, actionChecks := [(0, True)],
          editedActions := [demo_action],
          notices := [WarningNotice ''autopilot.confirmCalendarFailed'']\<rparr>"

text \<open>The user types a request and the analysis fails; the run stays absent.\<close>

definition failed_run_events :: "event list" where
  "failed_run_events = [ChangeInput (lit ''a''), ClickAnalyze, Settle 0 Failed]"

definition failed_run_state :: state where
  "failed_run_state =
     init\<lparr>inputText := lit ''a'', notices := [ErrorNotice ''autopilot.runError'']\<rparr>"

text \<open>While the correction of result 0 is on its way the user analyzes again; then the
  correction arrives and \<open>handleReschedule\<close> issues its own analysis: two runs are in
  flight, the user's first.\<close>

definition to_two_runs :: "event list" where
  "to_two_runs =
     to_blocked @
     [ChangeRescheduleInput 0 (lit ''move to 3pm''), ClickReschedule 0, ClickAnalyze,
      Settle 0 (AdjustOk \<lparr>user_text = Some (lit ''move to 3pm''), adj_action = None\<rparr>)]"

definition two_runs_state :: state where
  "two_runs_state =
     blocked_state\<lparr>inputText := lit ''a'' @ [10] @ lit ''move to 3pm'',
       isProcessing := True, runResult := None, confirmResult := None,
       rescheduleInputs := [(0, [])], rescheduleLoading := [(0, True)],
       inflight :=
         [RunCall \<lparr>rb_mode = TextMode, rb_locale = En, rb_audio_base64 = None,
                   rb_text = Some (lit ''a'')\<rparr> None,
          RunCall \<lparr>rb_mode = TextMode, rb_locale = En, rb_audio_base64 = None,
                   rb_text = Some (lit ''a'' @ [10] @ lit ''move to 3pm'')\<rparr> (Some 0)]\<rparr>"

text \<open>Three edits of the registry of \<open>blocked_state\<close>.\<close>

definition demo_ops :: "registry_op list" where
  "demo_ops =
     [Toggle 0 False, EditPayloadField 0 (lit ''title'') (JStr (lit ''Kickoff'')),
      Toggle 0 True]"

text \<open>The input text a reschedule line is merged into: on a new line when there is
  text already.\<close>

definition merged :: "jsstring \<Rightarrow> jsstring \<Rightarrow> jsstring" where
  "merged input line = (if input = [] then line else input @ [10] @ line)"

text \<open>The meeting moved by an hour, as adjust-time returns it, and the call that asked
  for it.\<close>

definition moved_action :: action where
  "moved_action =
     demo_action\<lparr>payload := Some [(lit ''title'', JStr (lit ''Demo'')),
                                   (lit ''date'', JStr (lit ''2026-02-14'')),
                                   (lit ''start_time'', JStr (lit ''15:00'')),
                                   (lit ''end_time'', JStr (lit ''16:00''))]\<rparr>"

definition demo_adjust_body :: adjust_body where
  "demo_adjust_body =
     \<lparr>ab_mode = TextMode, ab_locale = En, ab_action = demo_action, ab_audio_base64 = None,
      ab_text = Some (lit ''move to 3pm'')\<rparr>"

text \<open>The user types a draft for result 0, then records a correction instead and stops;
  the recording is submitted and adjust-time returns neither text nor action.\<close>

definition to_empty_correction :: "event list" where
  "to_empty_correction =
     to_blocked @
     [ChangeRescheduleInput 0 (lit ''later''), ClickRescheduleRecord 0 Granted,
      ClickRescheduleRecord 0 Granted, RecorderStop 0 (Some (lit ''AAAA'')),
      Settle 0 (AdjustOk \<lparr>user_text = None, adj_action = None\<rparr>)]"

text \<open>A run response that proposes the meeting but carries no run id, and the state it
  leaves: the results and the confirm button are on screen.\<close>

definition no_id_run :: run_data where
  "no_id_run = (demo_run ''r0'')\<lparr>run_id := None\<rparr>"

definition no_id_events :: "event list" where
  "no_id_events = [ChangeInput (lit ''a''), ClickAnalyze, Settle 0 (RunOk no_id_run)]"

definition no_id_state :: state where
  "no_id_state =
     init\<lparr>inputText := lit ''a'', runResult := Some no_id_run, actionChecks := [(0, True)],
          editedActions := [demo_action]\<rparr>"

text \<open>After \<open>to_two_runs\<close> the run of the reschedule has resolved with \<open>r2\<close>; the user's
  own run is still in flight.\<close>

definition later_run_shown :: state where
  "later_run_shown =
     two_runs_state\<lparr>isProcessing := False, runResult := Some (demo_run ''r2''),
       rescheduleLoading := [(0, False)],
       inflight :=
         [RunCall \<lparr>rb_mode = TextMode, rb_locale = En, rb_audio_base64 = None,
                   rb_text = Some (lit ''a'')\<rparr> None]\<rparr>"

text \<open>An adjusted action whose title is an object with a property \<open>toString\<close>.\<close>

definition odd_action :: action where
  "odd_action =
     demo_action\<lparr>payload := Some [(lit ''title'', JObj [(lit ''toString'', JNull)]),
                                 (lit ''date'', JStr (lit ''2026-02-14''))]\<rparr>"

section \<open>Evaluating events\<close>

lemmas handler_defs =
  handleRun_issue_def run_request_def handleRun_resolved_def handleRun_rejected_def
  init_checks_def toggle_def handleActionPayloadEdit_def handleConfirm_def has_run_id_def
  run_id_of_def serialize_def flag_def handleConfirm_resolved_def handleConfirm_rejected_def
  calendarFailed_def handleStartRecording_def handleStopRecording_def stop_recorder_def
  handleRescheduleStartRecording_def handleRescheduleStopRecording_def
  handleReschedule_def handleReschedule_resolved_def handleReschedule_rejected_def
  normalizedLine_def appendToAnalyzeInput_def reschedule_finally_def

lemmas event_defs =
  fire_def render_def view.truncate_def settle_def after_run_def recorder_stopped_def
  results_visible_def reschedule_visible_def anyChecked_def remove_nth_def nth_opt_def
  payload_keys_def or_str_def trim_def is_ws_def lit_def enumerate_eq_zip Let_def

lemmas demo_defs =
  init_def empty_reply_def demo_action_def demo_run_def demo_blocked_def

lemma to_blocked_reached: "run_events to_blocked init = Some blocked_state"
  by (simp add: to_blocked_def blocked_state_def handler_defs event_defs demo_defs)

lemma run_events_append:
  "run_events (es @ fs) s = (case run_events es s of None \<Rightarrow> None | Some s' \<Rightarrow> run_events fs s')"
  by (induction es arbitrary: s) (simp_all split: option.splits)

lemma after_blocked: "run_events (to_blocked @ es) init = run_events es blocked_state"
  by (simp add: run_events_append to_blocked_reached)

lemma two_runs_reached: "run_events to_two_runs init = Some two_runs_state"
  by (simp only: to_two_runs_def after_blocked)
     (simp add: two_runs_state_def blocked_state_def handler_defs event_defs demo_defs)

section \<open>Serialization for confirmation (C6)\<close>

lemma serialize_length: "length (serialize acts checks) = length acts"
  by (simp add: serialize_def)

lemma serialize_nth:
  "i < length acts \<Longrightarrow>
   serialize acts checks ! i =
     \<lparr>action_type = action_type (acts ! i), confidence = confidence (acts ! i),
      preview = preview (acts ! i), payload = payload (acts ! i),
      confirmed = flag checks i, skip = (\<not> flag checks i)\<rparr>"
  by (simp add: serialize_def nth_enumerate_eq)

lemma serialize_truncate: "map action.truncate (serialize acts checks) = acts"
  by (rule nth_equalityI)
     (simp_all add: serialize_length serialize_nth action.truncate_def)

lemma serialize_confirmed:
  "map confirmed (serialize acts checks) = map (flag checks) [0..<length acts]"
  by (rule nth_equalityI) (simp_all add: serialize_length serialize_nth)

lemma serialize_skip:
  "map skip (serialize acts checks) = map (\<lambda>i. \<not> flag checks i) [0..<length acts]"
  by (rule nth_equalityI) (simp_all add: serialize_length serialize_nth)

text \<open>
  C6. For every action list and every assignment of the check boxes, the serialized list
  has one entry per action, in list order, disabled actions included: cutting the two
  added fields off the entries gives the action list back, \<open>confirmed\<close> is the enabled
  flag of the entry's index and \<open>skip\<close> its negation. With a run id, \<open>handleConfirm\<close>
  sends exactly this list for the render's actions and check boxes.
\<close>

theorem C6_serialize_every_action:
  "length (serialize acts checks) = length acts \<and>
   map action.truncate (serialize acts checks) = acts \<and>
   map confirmed (serialize acts checks) = map (flag checks) [0..<length acts] \<and>
   map skip (serialize acts checks) = map (\<lambda>i. \<not> flag checks i) [0..<length acts] \<and>
   (has_run_id (runResult c) \<longrightarrow>
      fst (handleConfirm c s) =
        Inr (Some \<lparr>cb_run_id = run_id_of (runResult c),
                   cb_actions = serialize (editedActions c) (actionChecks c)\<rparr>))"
  by (simp add: serialize_length serialize_truncate serialize_confirmed serialize_skip
        handleConfirm_def Let_def)

text \<open>The meeting action, unchecked, is sent with \<open>confirmed = False\<close> and
  \<open>skip = True\<close>.\<close>

theorem C6_witness:
  "has_run_id (runResult (render (toggle 0 False blocked_state))) \<and>
   fst (handleConfirm (render (toggle 0 False blocked_state)) (toggle 0 False blocked_state)) =
     Inr (Some \<lparr>cb_run_id = lit ''r0'',
                cb_actions =
                  [\<lparr>action_type = lit ''create_meeting'', confidence = JNum (lit ''1''),
                    preview = lit ''Demo'', payload = payload demo_action,
                    confirmed = False, skip = True\<rparr>]\<rparr>)"
  using C6_serialize_every_action
    [of "[demo_action]" "[(0, False)]" "render (toggle 0 False blocked_state)"
        "toggle 0 False blocked_state"]
  by (simp add: blocked_state_def handler_defs event_defs demo_defs)

section \<open>Confirm without a run id (C8)\<close>

text \<open>Only a run response that carries a run id makes the visible run have one.\<close>

lemma handleReschedule_runResult:
  "runResult (handleReschedule c i m a s) = runResult s"
  by (simp add: handleReschedule_def Let_def split: option.splits)

lemma handleReschedule_resolved_no_run_id:
  "\<not> has_run_id (runResult s) \<Longrightarrow> \<not> has_run_id (runResult (handleReschedule_resolved c i b d s))"
  by (simp add: handleReschedule_resolved_def handleReschedule_rejected_def handleRun_issue_def
        appendToAnalyzeInput_def reschedule_finally_def has_run_id_def Let_def
      split: prod.splits sum.splits)

lemma settle_no_run_id:
  assumes "settle k resp s = Some s'" and "\<not> has_run_id (runResult s)"
    and "\<And>d. resp = RunOk d \<Longrightarrow> \<not> has_run_id (Some d)"
  shows "\<not> has_run_id (runResult s')"
proof -
  obtain cl where cl: "nth_opt (inflight s) k = Some cl"
    using assms(1) by (auto simp: settle_def split: option.splits)
  let ?s0 = "s\<lparr>inflight := remove_nth k (inflight s)\<rparr>"
  have s0: "\<not> has_run_id (runResult ?s0)" using assms(2) by simp
  show ?thesis
  proof (cases cl)
    case (RunCall b aw)
    then show ?thesis
      using assms cl
      by (cases resp; cases aw)
         (auto simp: settle_def after_run_def reschedule_finally_def handleRun_resolved_def
            handleRun_rejected_def Let_def)
  next
    case (ConfirmCall b)
    then show ?thesis
      using assms cl
      by (cases resp)
         (auto simp: settle_def handleConfirm_resolved_def handleConfirm_rejected_def Let_def)
  next
    case (AdjustCall b i c)
    then show ?thesis
      using assms(1) cl handleReschedule_resolved_no_run_id [OF s0, of c i b]
      by (cases resp)
         (auto simp: settle_def handleReschedule_rejected_def reschedule_finally_def Let_def
            assms(2))
  qed
qed

lemma fire_no_run_id:
  assumes "fire e s = Some s'" and "\<not> has_run_id (runResult s)"
    and "\<And>k d. e = Settle k (RunOk d) \<Longrightarrow> \<not> has_run_id (Some d)"
  shows "\<not> has_run_id (runResult s')"
proof (cases e)
  case (Settle k resp)
  then show ?thesis using assms settle_no_run_id [of k resp s s'] by (simp add: fire_def)
next
  case (RecorderStop r b64)
  then show ?thesis
    using assms(1,2)
    by (auto simp: fire_def recorder_stopped_def handleRun_issue_def has_run_id_def
          handleReschedule_runResult Let_def
        split: option.splits if_splits site.splits)
next
  case (EditPayload i k v)
  then show ?thesis
    using assms(1,2)
    by (auto simp: fire_def handleActionPayloadEdit_def split: option.splits if_splits)
qed (use assms(1,2) in \<open>auto simp: fire_def handleRun_issue_def has_run_id_def toggle_def
      handleStartRecording_def handleStopRecording_def handleRescheduleStartRecording_def
      handleRescheduleStopRecording_def handleConfirm_def handleReschedule_runResult Let_def
    split: if_splits option.splits media.splits\<close>)

lemma run_events_no_run_id:
  "run_events es s = Some s' \<Longrightarrow> \<not> has_run_id (runResult s) \<Longrightarrow>
   (\<And>k d. Settle k (RunOk d) \<in> set es \<Longrightarrow> \<not> has_run_id (Some d)) \<Longrightarrow>
   \<not> has_run_id (runResult s')"
proof (induction es arbitrary: s)
  case Nil
  then show ?case by simp
next
  case (Cons e es)
  from Cons.prems(1) obtain s1 where s1: "fire e s = Some s1" and rest: "run_events es s1 = Some s'"
    by (auto split: option.splits)
  have "\<And>k d. e = Settle k (RunOk d) \<Longrightarrow> \<not> has_run_id (Some d)"
    using Cons.prems(3) by auto
  with s1 Cons.prems(2) have "\<not> has_run_id (runResult s1)"
    by (rule fire_no_run_id)
  moreover have "\<And>k d. Settle k (RunOk d) \<in> set es \<Longrightarrow> \<not> has_run_id (Some d)"
    using Cons.prems(3) by auto
  ultimately show ?case
    using rest by (intro Cons.IH)
qed

lemma confirm_guard_returns:
  "\<not> has_run_id (runResult c) \<Longrightarrow> handleConfirm c s = (Inr None, s)"
  by (simp add: handleConfirm_def)

text \<open>
  C8, as the code has it. When the visible run has no run id, \<open>handleConfirm\<close> does not
  fail: its guard returns at once, nothing is thrown and no notice is shown; no request
  is sent and the state is unchanged. That is the case in every state reached from the
  initial one by events among which no run response carried a run id, and a click on the
  confirm button there leaves the state as it is.
\<close>

theorem C8_confirm_without_run_id_returns:
  "(\<not> has_run_id (runResult c) \<longrightarrow> handleConfirm c s = (Inr None, s)) \<and>
   (run_events es init = Some s \<and> (\<forall>k d. Settle k (RunOk d) \<in> set es \<longrightarrow> \<not> has_run_id (Some d))
      \<longrightarrow> handleConfirm (render s) s = (Inr None, s) \<and>
          (results_visible s \<and> anyChecked s \<and> \<not> isConfirming s
             \<longrightarrow> fire ClickConfirm s = Some s))"
proof (intro conjI impI)
  assume "\<not> has_run_id (runResult c)"
  then show "handleConfirm c s = (Inr None, s)" by (rule confirm_guard_returns)
next
  assume a: "run_events es init = Some s \<and>
    (\<forall>k d. Settle k (RunOk d) \<in> set es \<longrightarrow> \<not> has_run_id (Some d))"
  have "\<not> has_run_id (runResult init)" by (simp add: init_def has_run_id_def)
  with a have "\<not> has_run_id (runResult s)"
    using run_events_no_run_id [of es init s] by blast
  then have "\<not> has_run_id (runResult (render s))"
    by (simp add: render_def view.truncate_def)
  then show ret: "handleConfirm (render s) s = (Inr None, s)"
    by (rule confirm_guard_returns)
  assume "results_visible s \<and> anyChecked s \<and> \<not> isConfirming s"
  then show "fire ClickConfirm s = Some s"
    by (simp add: fire_def ret)
qed

lemma no_id_reached: "run_events no_id_events init = Some no_id_state"
  by (simp add: no_id_events_def no_id_state_def no_id_run_def handler_defs event_defs demo_defs)

theorem C8_witness:
  "\<not> has_run_id (runResult (render no_id_state)) \<and>
   run_events no_id_events init = Some no_id_state \<and>
   handleConfirm (render no_id_state) no_id_state = (Inr None, no_id_state) \<and>
   fire ClickConfirm no_id_state = Some no_id_state"
proof -
  have reached: "run_events no_id_events init = Some no_id_state"
    by (rule no_id_reached)
  have no_id: "\<forall>k d. Settle k (RunOk d) \<in> set no_id_events \<longrightarrow> \<not> has_run_id (Some d)"
    by (simp add: no_id_events_def no_id_run_def demo_run_def has_run_id_def)
  have shown: "results_visible no_id_state \<and> anyChecked no_id_state \<and> \<not> isConfirming no_id_state"
    by (simp add: no_id_state_def init_def results_visible_def anyChecked_def)
  have "\<not> has_run_id (runResult (render no_id_state))"
    by (simp add: no_id_state_def no_id_run_def demo_run_def init_def render_def
          view.truncate_def has_run_id_def)
  then show ?thesis
    using C8_confirm_without_run_id_returns [of "render no_id_state" no_id_state no_id_events]
      reached no_id shown
    by blast
qed

text \<open>The claim fails as stated: a run response without a run id leaves the confirm button
  on screen; the click does not fail, it returns without an error and without a notice.\<close>

theorem C8_confirm_returns_silently:
  "run_events no_id_events init = Some no_id_state \<and>
   \<not> isl (fst (handleConfirm (render no_id_state) no_id_state)) \<and>
   snd (handleConfirm (render no_id_state) no_id_state) = no_id_state \<and>
   notices no_id_state = [] \<and>
   run_events (no_id_events @ [ClickConfirm]) init = Some no_id_state"
  by (simp only: run_events_append no_id_reached option.case)
     (simp add: no_id_state_def no_id_run_def handler_defs event_defs demo_defs)

section \<open>A payload edit at a stale index (C9)\<close>

lemma stale_edit_raises:
  "length (editedActions s) \<le> index \<Longrightarrow> handleActionPayloadEdit index field v s = Inl TypeError"
  by (simp add: handleActionPayloadEdit_def nth_opt_def)

text \<open>
  C9. The claim is that an edit at an index beyond the action list is a silent no-op. The
  code has no guard: with one action in the list, the edit of field \<open>title\<close> at index 1
  reads \<open>payload\<close> of \<open>undefined\<close> and throws; no new list is produced.
\<close>

theorem C9_stale_edit_throws:
  "editedActions (handleRun_resolved (demo_run ''r0'') init) = [demo_action] \<and>
   handleActionPayloadEdit 1 (lit ''title'') (JStr (lit ''x''))
     (handleRun_resolved (demo_run ''r0'') init) = Inl TypeError"
  by (simp add: handleActionPayloadEdit_def nth_opt_def handleRun_resolved_def demo_run_def Let_def)

section \<open>A successful analysis (C5)\<close>

lemma map_of_foldl_update:
  "map_of (foldl (\<lambda>checks i. AList.update i True checks) c0 xs) i =
     (if i \<in> set xs then Some True else map_of c0 i)"
  by (induction xs arbitrary: c0) (simp_all add: update_conv')

lemma flag_init_checks: "flag (init_checks acts) i = (i < length acts)"
  by (simp add: flag_def init_checks_def map_of_foldl_update)

text \<open>
  C5, as the code has it. After a successful analysis the action list is the response's
  list (empty when it has none) and the enabled flag is true at exactly the indices of
  that list; the map of reschedule drafts is not cleared: the handler leaves it as it
  was. This holds as well when the run is the one a reschedule awaited.
\<close>

theorem C5_success_enables_all_keeps_drafts:
  "editedActions (after_run aw (handleRun_resolved d s)) =
     (case actions_preview d of None \<Rightarrow> [] | Some as \<Rightarrow> as) \<and>
   (\<forall>i. flag (actionChecks (after_run aw (handleRun_resolved d s))) i =
        (i < length (editedActions (after_run aw (handleRun_resolved d s))))) \<and>
   rescheduleInputs (after_run aw (handleRun_resolved d s)) = rescheduleInputs s"
  by (cases aw)
     (simp_all add: after_run_def reschedule_finally_def handleRun_resolved_def Let_def
        flag_init_checks)

theorem C5_witness:
  "editedActions (after_run None (handleRun_resolved (demo_run ''r0'') init)) = [demo_action] \<and>
   flag (actionChecks (after_run None (handleRun_resolved (demo_run ''r0'') init))) 0 \<and>
   rescheduleInputs (after_run None (handleRun_resolved (demo_run ''r0'') init)) = []"
  using C5_success_enables_all_keeps_drafts [of None "demo_run ''r0''" init]
  by (simp add: demo_run_def init_def)

text \<open>The claim fails as stated: a draft typed for the blocked result 0 is still in the map
  after the next successful analysis.\<close>

theorem C5_drafts_not_cleared:
  "map_option rescheduleInputs
     (run_events (to_blocked @ [ChangeRescheduleInput 0 (lit ''move to 3pm''), ClickAnalyze,
                                Settle 0 (RunOk (demo_run ''r1''))]) init) =
     Some [(0, lit ''move to 3pm'')] \<and>
   map_option rescheduleInputs
     (run_events (to_blocked @ [ChangeRescheduleInput 0 (lit ''move to 3pm''), ClickAnalyze,
                                Settle 0 (RunOk (demo_run ''r1''))]) init) \<noteq> Some []"
  by (simp only: after_blocked) (simp add: blocked_state_def handler_defs event_defs demo_defs)

section \<open>A failed analysis (C3)\<close>

lemma remove_nth_last: "remove_nth (length xs) (xs @ [x]) = xs"
  by (simp add: remove_nth_def)

lemma nth_opt_last: "nth_opt (xs @ [x]) (length xs) = Some x"
  by (simp add: nth_opt_def)

lemma settle_run_failed:
  "nth_opt (inflight s) k = Some (RunCall b aw) \<Longrightarrow>
   settle k Failed s =
     Some (after_run aw
       (s\<lparr>isProcessing := False, inflight := remove_nth k (inflight s),
          notices := notices s @ [ErrorNotice ''autopilot.runError'']\<rparr>))"
  by (cases s) (simp add: settle_def handleRun_rejected_def Let_def)

text \<open>
  C3, as the code has it. Issuing an analyze call clears the visible run and the
  confirmation result. Handling its failure, in whatever state that happens, shows an
  error notice and clears the processing indicator and changes nothing else (but the
  loading flag of a reschedule that awaited the run): the run and the confirmation
  result are what they were just before, so the run held before the call is not
  restored. When the failure is handled right after the issue, both are absent and
  everything else is as before the call.
\<close>

theorem C3_failed_analyze_restores_nothing:
  "runResult (handleRun_issue c m audioB64 overrideText aw s) = None \<and>
   confirmResult (handleRun_issue c m audioB64 overrideText aw s) = None \<and>
   (nth_opt (inflight s) k = Some (RunCall b aw') \<longrightarrow>
      settle k Failed s =
        Some (after_run aw'
          (s\<lparr>isProcessing := False, inflight := remove_nth k (inflight s),
             notices := notices s @ [ErrorNotice ''autopilot.runError'']\<rparr>))) \<and>
   settle (length (inflight s)) Failed (handleRun_issue c m audioB64 overrideText aw s) =
     Some (after_run aw
       (s\<lparr>isProcessing := False, runResult := None, confirmResult := None,
          notices := notices s @ [ErrorNotice ''autopilot.runError'']\<rparr>))"
proof (intro conjI impI)
  show "runResult (handleRun_issue c m audioB64 overrideText aw s) = None"
    and "confirmResult (handleRun_issue c m audioB64 overrideText aw s) = None"
    by (simp_all add: handleRun_issue_def)
  show "settle k Failed s =
        Some (after_run aw'
          (s\<lparr>isProcessing := False, inflight := remove_nth k (inflight s),
             notices := notices s @ [ErrorNotice ''autopilot.runError'']\<rparr>))"
    if "nth_opt (inflight s) k = Some (RunCall b aw')"
    using that by (rule settle_run_failed)
  show "settle (length (inflight s)) Failed (handleRun_issue c m audioB64 overrideText aw s) =
     Some (after_run aw
       (s\<lparr>isProcessing := False, runResult := None, confirmResult := None,
          notices := notices s @ [ErrorNotice ''autopilot.runError'']\<rparr>))"
    by (cases s)
       (simp add: settle_def handleRun_issue_def nth_opt_last remove_nth_last
          handleRun_rejected_def Let_def)
qed

text \<open>Two instances: the user's run fails after the later run of the reschedule has
  resolved, and the later run stays on screen; a run fails right after it was issued from
  the blocked state, and run and confirmation result are gone.\<close>

theorem C3_witness:
  "nth_opt (inflight later_run_shown) 0 =
     Some (RunCall \<lparr>rb_mode = TextMode, rb_locale = En, rb_audio_base64 = None,
                    rb_text = Some (lit ''a'')\<rparr> None) \<and>
   settle 0 Failed later_run_shown =
     Some (later_run_shown\<lparr>inflight := [],
       notices := [WarningNotice ''autopilot.confirmCalendarFailed'',
                   ErrorNotice ''autopilot.runError'']\<rparr>) \<and>
   runResult later_run_shown = Some (demo_run ''r2'') \<and>
   settle 0 Failed (handleRun_issue (render blocked_state) TextMode None None None blocked_state) =
     Some (blocked_state\<lparr>isProcessing := False, runResult := None, confirmResult := None,
       notices := [WarningNotice ''autopilot.confirmCalendarFailed'',
                   ErrorNotice ''autopilot.runError'']\<rparr>)"
  using C3_failed_analyze_restores_nothing
      [of "render blocked_state" TextMode None None None blocked_state 0
          "\<lparr>rb_mode = TextMode, rb_locale = En, rb_audio_base64 = None,
            rb_text = Some (lit ''a'')\<rparr>" None]
    C3_failed_analyze_restores_nothing
      [of "render blocked_state" TextMode None None None later_run_shown 0
          "\<lparr>rb_mode = TextMode, rb_locale = En, rb_audio_base64 = None,
            rb_text = Some (lit ''a'')\<rparr>" None]
  by (simp add: later_run_shown_def two_runs_state_def blocked_state_def init_def
        after_run_def nth_opt_def remove_nth_def lit_def)

lemma later_run_shown_reached:
  "run_events (to_two_runs @ [Settle 1 (RunOk (demo_run ''r2''))]) init = Some later_run_shown"
  by (simp only: run_events_append two_runs_reached option.case)
     (simp add: later_run_shown_def two_runs_state_def blocked_state_def handler_defs
        event_defs demo_defs)

text \<open>The claim fails as stated: the run shown before the second analysis is gone after
  that analysis failed.\<close>

theorem C3_previous_run_lost:
  "map_option runResult
     (run_events [ChangeInput (lit ''a''), ClickAnalyze, Settle 0 (RunOk (demo_run ''r0''))] init) =
     Some (Some (demo_run ''r0'')) \<and>
   map_option runResult
     (run_events [ChangeInput (lit ''a''), ClickAnalyze, Settle 0 (RunOk (demo_run ''r0'')),
                  ClickAnalyze, Settle 0 Failed] init) = Some None"
  by (simp add: handler_defs event_defs demo_defs)

section \<open>Responses that arrive out of order (C1)\<close>

lemma nth_opt_remove_nth_before: "i < j \<Longrightarrow> nth_opt (remove_nth j xs) i = nth_opt xs i"
  by (auto simp: nth_opt_def remove_nth_def nth_append min_def)

lemma settle_run_ok:
  "nth_opt (inflight s) k = Some (RunCall b aw) \<Longrightarrow>
   settle k (RunOk d) s =
     Some (after_run aw (handleRun_resolved d (s\<lparr>inflight := remove_nth k (inflight s)\<rparr>)))"
  by (simp add: settle_def Let_def)

lemma after_run_resolved_fields:
  "runResult (after_run aw (handleRun_resolved d s)) = Some d"
  "inflight (after_run aw (handleRun_resolved d s)) = inflight s"
  "editedActions (after_run aw (handleRun_resolved d s)) =
     (case actions_preview d of None \<Rightarrow> [] | Some as \<Rightarrow> as)"
  "replyDraft (after_run aw (handleRun_resolved d s)) =
     (case reply_draft d of None \<Rightarrow> empty_reply | Some r \<Rightarrow> r)"
  "actionChecks (after_run aw (handleRun_resolved d s)) =
     init_checks (case actions_preview d of None \<Rightarrow> [] | Some as \<Rightarrow> as)"
  by (cases aw; simp add: after_run_def reschedule_finally_def handleRun_resolved_def Let_def)+

text \<open>
  C1, as the code has it. The calls in flight are in the order they were issued; the code
  tags none of them. When two analyze calls are in flight and the response of the later
  one is handled first, the response of the earlier one, handled after it, replaces it:
  the visible run, the action list, the check boxes and the reply draft are those of the
  response handled last.
\<close>

theorem C1_last_handled_response_wins:
  assumes "i < j"
    and "nth_opt (inflight s) i = Some (RunCall b1 aw1)"
    and "nth_opt (inflight s) j = Some (RunCall b2 aw2)"
  shows "\<exists>s' s''. settle j (RunOk d2) s = Some s' \<and> runResult s' = Some d2 \<and>
           settle i (RunOk d1) s' = Some s'' \<and> runResult s'' = Some d1 \<and>
           editedActions s'' = (case actions_preview d1 of None \<Rightarrow> [] | Some as \<Rightarrow> as) \<and>
           actionChecks s'' = init_checks (editedActions s'') \<and>
           replyDraft s'' = (case reply_draft d1 of None \<Rightarrow> empty_reply | Some r \<Rightarrow> r)"
proof -
  let ?s' = "after_run aw2 (handleRun_resolved d2 (s\<lparr>inflight := remove_nth j (inflight s)\<rparr>))"
  let ?s'' = "after_run aw1 (handleRun_resolved d1 (?s'\<lparr>inflight := remove_nth i (inflight ?s')\<rparr>))"
  have first: "settle j (RunOk d2) s = Some ?s'"
    using assms(3) by (rule settle_run_ok)
  have "nth_opt (inflight ?s') i = Some (RunCall b1 aw1)"
    using assms(1,2) by (simp add: after_run_resolved_fields nth_opt_remove_nth_before)
  then have second: "settle i (RunOk d1) ?s' = Some ?s''"
    by (rule settle_run_ok)
  show ?thesis
    using first second by (simp add: after_run_resolved_fields)
qed

theorem C1_witness:
  "\<exists>s' s''. settle 1 (RunOk (demo_run ''r2'')) two_runs_state = Some s' \<and>
      runResult s' = Some (demo_run ''r2'') \<and>
      settle 0 (RunOk (demo_run ''r1'')) s' = Some s'' \<and>
      runResult s'' = Some (demo_run ''r1'') \<and> editedActions s'' = [demo_action]"
proof -
  have "\<exists>s' s''. settle 1 (RunOk (demo_run ''r2'')) two_runs_state = Some s' \<and>
      runResult s' = Some (demo_run ''r2'') \<and>
      settle 0 (RunOk (demo_run ''r1'')) s' = Some s'' \<and>
      runResult s'' = Some (demo_run ''r1'') \<and>
      editedActions s'' =
        (case actions_preview (demo_run ''r1'') of None \<Rightarrow> [] | Some as \<Rightarrow> as) \<and>
      actionChecks s'' = init_checks (editedActions s'') \<and>
      replyDraft s'' =
        (case reply_draft (demo_run ''r1'') of None \<Rightarrow> empty_reply | Some r \<Rightarrow> r)"
    by (rule C1_last_handled_response_wins [where i = 0 and j = 1 and s = two_runs_state])
       (simp_all add: two_runs_state_def blocked_state_def nth_opt_def)
  then show ?thesis by (auto simp: demo_run_def)
qed

text \<open>The claim fails as stated: the user's analysis was issued before the one of the
  reschedule; its response arrives last and is the run shown, not the response of the
  later call.\<close>

theorem C1_stale_response_applied:
  "map_option inflight (run_events to_two_runs init) =
     Some [RunCall \<lparr>rb_mode = TextMode, rb_locale = En, rb_audio_base64 = None,
                    rb_text = Some (lit ''a'')\<rparr> None,
           RunCall \<lparr>rb_mode = TextMode, rb_locale = En, rb_audio_base64 = None,
                    rb_text = Some (lit ''a'' @ [10] @ lit ''move to 3pm'')\<rparr> (Some 0)] \<and>
   map_option runResult
     (run_events (to_two_runs @ [Settle 1 (RunOk (demo_run ''r2'')),
                                 Settle 0 (RunOk (demo_run ''r1''))]) init) =
     Some (Some (demo_run ''r1'')) \<and>
   demo_run ''r1'' \<noteq> demo_run ''r2''"
  by (simp only: run_events_append two_runs_reached option.case)
     (simp add: two_runs_state_def blocked_state_def handler_defs event_defs demo_defs)

section \<open>Two capture sites (C2)\<close>

text \<open>
  C2, as the code has it. No handler asks whether another site is capturing. Granted the
  microphone, a start at a reschedule index begins recording there in every state: the
  index becomes the recording one, its recorder is added to those recording, and the
  primary site's flag and recorder are left alone; a primary start likewise adds the
  primary site.
\<close>

theorem C2_capture_start_never_refused:
  "recording_sites (handleRescheduleStartRecording c i Granted s) =
     recording_sites s @ [Reschedule i] \<and>
   rescheduleRecordingIndex (handleRescheduleStartRecording c i Granted s) = Some i \<and>
   isRecording (handleRescheduleStartRecording c i Granted s) = isRecording s \<and>
   mediaRecorderRef (handleRescheduleStartRecording c i Granted s) = mediaRecorderRef s \<and>
   recording_sites (handleStartRecording c Granted s) = recording_sites s @ [Primary] \<and>
   isRecording (handleStartRecording c Granted s) = True"
  by (simp add: handleRescheduleStartRecording_def handleStartRecording_def recording_sites_def)

theorem C2_witness:
  "recording_sites
     (handleRescheduleStartRecording (render init) 0 Granted
        (handleStartRecording (render init) Granted init)) = [Primary, Reschedule 0]"
  using C2_capture_start_never_refused
    [of "render init" 0 "handleStartRecording (render init) Granted init"]
    C2_capture_start_never_refused [of "render init" 0 init]
  by (simp add: recording_sites_def init_def)

text \<open>The claim fails as stated: with the reschedule controls of result 0 on screen, the
  user starts the primary recording and then the recording of result 0; both start, and
  two sites are recording.\<close>

theorem C2_two_sites_recording:
  "map_option recording_sites
     (run_events (to_blocked @ [ClickRecord Granted, ClickRescheduleRecord 0 Granted]) init) =
     Some [Primary, Reschedule 0] \<and>
   map_option isRecording
     (run_events (to_blocked @ [ClickRecord Granted, ClickRescheduleRecord 0 Granted]) init) =
     Some True \<and>
   map_option rescheduleRecordingIndex
     (run_events (to_blocked @ [ClickRecord Granted, ClickRescheduleRecord 0 Granted]) init) =
     Some (Some 0)"
  by (simp only: after_blocked)
     (simp add: blocked_state_def recording_sites_def handler_defs event_defs demo_defs)

section \<open>Edits of the action registry (C7)\<close>

lemma apply_op_total:
  "op_index x < length (editedActions s) \<Longrightarrow> \<exists>s'. apply_op x s = Inr s'"
  by (cases x) (simp_all add: handleActionPayloadEdit_def nth_opt_def)

lemma apply_op_length:
  "apply_op x s = Inr s' \<Longrightarrow> length (editedActions s') = length (editedActions s)"
  by (cases x) (auto simp: toggle_def handleActionPayloadEdit_def nth_opt_def split: if_splits)

lemma apply_op_rest:
  "apply_op x s = Inr s' \<Longrightarrow>
   s'\<lparr>actionChecks := actionChecks s, editedActions := editedActions s\<rparr> = s"
  by (cases x) (auto simp: toggle_def handleActionPayloadEdit_def nth_opt_def split: if_splits)

lemma apply_op_tags:
  "apply_op x s = Inr s' \<Longrightarrow>
   map action_type (editedActions s') = map action_type (editedActions s) \<and>
   map confidence (editedActions s') = map confidence (editedActions s) \<and>
   map preview (editedActions s') = map preview (editedActions s)"
  by (cases x)
     (auto simp: toggle_def handleActionPayloadEdit_def nth_opt_def map_update list_update_same_conv
       split: if_splits)

lemma apply_op_payload:
  assumes "apply_op x s = Inr s'" and "\<forall>v. x \<noteq> EditPayloadField j f v"
  shows "payload_field (editedActions s' ! j) f = payload_field (editedActions s ! j) f"
proof (cases x)
  case (Toggle i b)
  then show ?thesis using assms(1) by (auto simp: toggle_def)
next
  case (EditPayloadField i g v)
  with assms(2) have differs: "i \<noteq> j \<or> g \<noteq> f" by auto
  from assms(1) EditPayloadField have i: "i < length (editedActions s)"
    by (auto simp: handleActionPayloadEdit_def nth_opt_def split: if_splits)
  show ?thesis
  proof (cases "i = j")
    case False
    then show ?thesis
      using assms(1) EditPayloadField i
      by (auto simp: handleActionPayloadEdit_def nth_opt_def)
  next
    case True
    with differs have "g \<noteq> f" by simp
    then show ?thesis
      using assms(1) EditPayloadField i True
      by (auto simp: handleActionPayloadEdit_def nth_opt_def payload_field_def update_conv'
          split: option.splits)
  qed
qed

lemma apply_op_checks:
  "apply_op x s = Inr s' \<Longrightarrow> \<forall>b. x \<noteq> Toggle j b \<Longrightarrow>
   map_of (actionChecks s') j = map_of (actionChecks s) j"
  by (cases x)
     (auto simp: toggle_def handleActionPayloadEdit_def nth_opt_def update_conv' split: if_splits)

lemma apply_ops_total:
  "\<forall>x\<in>set ops. op_index x < length (editedActions s) \<Longrightarrow> \<exists>s'. apply_ops ops s = Inr s'"
proof (induction ops arbitrary: s)
  case Nil
  then show ?case by simp
next
  case (Cons x xs)
  then obtain s1 where s1: "apply_op x s = Inr s1"
    using apply_op_total [of x s] by auto
  then have "length (editedActions s1) = length (editedActions s)"
    by (rule apply_op_length)
  with Cons.prems have "\<forall>x\<in>set xs. op_index x < length (editedActions s1)" by simp
  then obtain s' where "apply_ops xs s1 = Inr s'" using Cons.IH by blast
  with s1 show ?case by simp
qed

lemma apply_ops_length:
  "apply_ops ops s = Inr s' \<Longrightarrow> length (editedActions s') = length (editedActions s)"
  by (induction ops arbitrary: s) (auto split: sum.splits dest: apply_op_length)

lemma apply_ops_rest:
  "apply_ops ops s = Inr s' \<Longrightarrow>
   s'\<lparr>actionChecks := actionChecks s, editedActions := editedActions s\<rparr> = s"
proof (induction ops arbitrary: s)
  case Nil
  then show ?case by simp
next
  case (Cons x xs)
  then obtain s1 where s1: "apply_op x s = Inr s1" and rest: "apply_ops xs s1 = Inr s'"
    by (auto split: sum.splits)
  have "s'\<lparr>actionChecks := actionChecks s1, editedActions := editedActions s1\<rparr> = s1"
    using rest by (rule Cons.IH)
  then have "(s'\<lparr>actionChecks := actionChecks s1, editedActions := editedActions s1\<rparr>)
               \<lparr>actionChecks := actionChecks s, editedActions := editedActions s\<rparr> =
             s1\<lparr>actionChecks := actionChecks s, editedActions := editedActions s\<rparr>"
    by (rule arg_cong)
  then have "s'\<lparr>actionChecks := actionChecks s, editedActions := editedActions s\<rparr> =
             s1\<lparr>actionChecks := actionChecks s, editedActions := editedActions s\<rparr>"
    by simp
  also have "\<dots> = s" using s1 by (rule apply_op_rest)
  finally show ?case .
qed

lemma apply_ops_tags:
  "apply_ops ops s = Inr s' \<Longrightarrow>
   map action_type (editedActions s') = map action_type (editedActions s) \<and>
   map confidence (editedActions s') = map confidence (editedActions s) \<and>
   map preview (editedActions s') = map preview (editedActions s)"
proof (induction ops arbitrary: s)
  case Nil
  then show ?case by simp
next
  case (Cons x xs)
  then obtain s1 where s1: "apply_op x s = Inr s1" and rest: "apply_ops xs s1 = Inr s'"
    by (auto split: sum.splits)
  show ?case using apply_op_tags [OF s1] Cons.IH [OF rest] by simp
qed

lemma apply_ops_payload:
  "apply_ops ops s = Inr s' \<Longrightarrow> \<forall>v. EditPayloadField j f v \<notin> set ops \<Longrightarrow>
   payload_field (editedActions s' ! j) f = payload_field (editedActions s ! j) f"
proof (induction ops arbitrary: s)
  case Nil
  then show ?case by simp
next
  case (Cons x xs)
  then obtain s1 where s1: "apply_op x s = Inr s1" and rest: "apply_ops xs s1 = Inr s'"
    by (auto split: sum.splits)
  have "payload_field (editedActions s' ! j) f = payload_field (editedActions s1 ! j) f"
    using rest Cons.prems(2) by (intro Cons.IH) auto
  also have "\<dots> = payload_field (editedActions s ! j) f"
    using s1 Cons.prems(2) by (intro apply_op_payload) auto
  finally show ?case .
qed

lemma apply_ops_checks:
  "apply_ops ops s = Inr s' \<Longrightarrow> \<forall>b. Toggle j b \<notin> set ops \<Longrightarrow>
   map_of (actionChecks s') j = map_of (actionChecks s) j"
proof (induction ops arbitrary: s)
  case Nil
  then show ?case by simp
next
  case (Cons x xs)
  then obtain s1 where s1: "apply_op x s = Inr s1" and rest: "apply_ops xs s1 = Inr s'"
    by (auto split: sum.splits)
  have "map_of (actionChecks s') j = map_of (actionChecks s1) j"
    using rest Cons.prems(2) by (intro Cons.IH) auto
  also have "\<dots> = map_of (actionChecks s) j"
    using s1 Cons.prems(2) by (intro apply_op_checks) auto
  finally show ?case .
qed

text \<open>What one call does set: the flag of its index, the named field of its action.\<close>

lemma registry_op_effect:
  "flag (actionChecks (toggle i b s)) i = b"
  "i < length (editedActions s) \<Longrightarrow>
   \<exists>s'. handleActionPayloadEdit i f v s = Inr s' \<and>
        payload_field (editedActions s' ! i) f = Some v"
  by (simp_all add: toggle_def flag_def update_conv' handleActionPayloadEdit_def nth_opt_def
        payload_field_def)

text \<open>
  C7. Every sequence of \<open>toggle\<close> and \<open>editPayloadField\<close> calls whose indices are within
  the action list runs through without an error and leaves the list at its length; the
  type, confidence and preview of every action keep their values; a payload field of an
  action keeps its value unless a call named that action and that field; the check box of
  an index keeps its value unless a toggle named that index; the rest of the state is
  untouched.
\<close>

theorem C7_registry_edits_frame:
  assumes "\<forall>x\<in>set ops. op_index x < length (editedActions s)"
  shows "\<exists>s'. apply_ops ops s = Inr s' \<and>
     length (editedActions s') = length (editedActions s) \<and>
     map action_type (editedActions s') = map action_type (editedActions s) \<and>
     map confidence (editedActions s') = map confidence (editedActions s) \<and>
     map preview (editedActions s') = map preview (editedActions s) \<and>
     (\<forall>j f. (\<forall>v. EditPayloadField j f v \<notin> set ops) \<longrightarrow>
        payload_field (editedActions s' ! j) f = payload_field (editedActions s ! j) f) \<and>
     (\<forall>j. (\<forall>b. Toggle j b \<notin> set ops) \<longrightarrow>
        map_of (actionChecks s') j = map_of (actionChecks s) j) \<and>
     s'\<lparr>actionChecks := actionChecks s, editedActions := editedActions s\<rparr> = s"
proof -
  from assms obtain s' where run: "apply_ops ops s = Inr s'"
    using apply_ops_total by blast
  show ?thesis
    using run apply_ops_length [OF run] apply_ops_tags [OF run] apply_ops_rest [OF run]
      apply_ops_payload [OF run] apply_ops_checks [OF run]
    by blast
qed

theorem C7_witness:
  "\<exists>s'. apply_ops demo_ops blocked_state = Inr s' \<and>
     length (editedActions s') = 1 \<and>
     map action_type (editedActions s') = [lit ''create_meeting''] \<and>
     payload_field (editedActions s' ! 0) (lit ''date'') = Some (JStr (lit ''2026-02-14'')) \<and>
     payload_field (editedActions s' ! 0) (lit ''title'') = Some (JStr (lit ''Kickoff'')) \<and>
     flag (actionChecks s') 0"
proof -
  have in_range: "\<forall>x\<in>set demo_ops. op_index x < length (editedActions blocked_state)"
    by (simp add: demo_ops_def blocked_state_def)
  have no_date: "\<forall>v. EditPayloadField 0 (lit ''date'') v \<notin> set demo_ops"
    by (simp add: demo_ops_def lit_def)
  from C7_registry_edits_frame [OF in_range] obtain s' where
    run: "apply_ops demo_ops blocked_state = Inr s'" and
    len: "length (editedActions s') = length (editedActions blocked_state)" and
    tags: "map action_type (editedActions s') = map action_type (editedActions blocked_state)" and
    frame: "\<forall>j f. (\<forall>v. EditPayloadField j f v \<notin> set demo_ops) \<longrightarrow>
        payload_field (editedActions s' ! j) f = payload_field (editedActions blocked_state ! j) f"
    by blast
  from frame no_date have
    "payload_field (editedActions s' ! 0) (lit ''date'') =
       payload_field (editedActions blocked_state ! 0) (lit ''date'')"
    by blast
  moreover have "apply_ops demo_ops blocked_state =
      Inr (blocked_state\<lparr>actionChecks := [(0, True)],
             editedActions := [demo_action\<lparr>payload :=
               Some [(lit ''title'', JStr (lit ''Kickoff'')),
                     (lit ''date'', JStr (lit ''2026-02-14'')),
                     (lit ''start_time'', JStr (lit ''14:00'')),
                     (lit ''end_time'', JStr (lit ''15:00''))]\<rparr>]\<rparr>)"
    by (simp add: demo_ops_def blocked_state_def toggle_def handleActionPayloadEdit_def
          nth_opt_def demo_action_def lit_def init_def)
  ultimately show ?thesis
    using run len tags
    by (auto simp: blocked_state_def payload_field_def demo_action_def flag_def lit_def)
qed

section \<open>The reschedule line and its merge (C4)\<close>

lemma trim_id: "s \<noteq> [] \<Longrightarrow> \<not> is_ws (hd s) \<Longrightarrow> \<not> is_ws (last s) \<Longrightarrow> trim s = s"
proof -
  assume s: "s \<noteq> []" and h: "\<not> is_ws (hd s)" and l: "\<not> is_ws (last s)"
  from s h have "dropWhile is_ws s = s" by (cases s) simp_all
  moreover from s l have "dropWhile is_ws (rev s) = rev s"
    by (cases "rev s") (simp_all add: last_rev [symmetric] hd_rev)
  ultimately show "trim s = s" by (simp add: trim_def)
qed

lemma line_template_ends:
  "line_template l t d st e tz \<noteq> []"
  "\<not> is_ws (hd (line_template l t d st e tz))"
  "\<not> is_ws (last (line_template l t d st e tz))"
  by (simp_all add: line_template_def lit_def is_ws_def)

lemma buildRescheduleLine_text:
  assumes "field_text a ''title'' (default_title (lang c)) = Inr t"
    and "field_text a ''date'' [] = Inr dt"
    and "field_text a ''start_time'' [] = Inr st"
    and "field_text a ''end_time'' [] = Inr en"
  shows "buildRescheduleLine c a raw =
     Inr (line_template (lang c) t dt st en (lit ''America/Toronto''))"
proof -
  have "buildRescheduleLine c a raw =
      Inr (trim (line_template (lang c) t dt st en (lit ''America/Toronto'')))"
    using assms
    by (simp add: buildRescheduleLine_def line_template_def field_text_def default_title_def
          Let_def)
  then show ?thesis
    by (simp add: trim_id line_template_ends)
qed

text \<open>When one of the four conversions throws, so does the handler's \<open>try\<close> block: the
  reschedule error notice is shown and nothing else happens.\<close>

lemma reschedule_line_throws:
  "normalizedLine c body \<lparr>user_text = None, adj_action = Some odd_action\<rparr> = Inl TypeError"
  "handleReschedule_resolved c i body \<lparr>user_text = None, adj_action = Some odd_action\<rparr> s =
     handleReschedule_rejected i s"
  by (simp_all add: handleReschedule_resolved_def normalizedLine_def buildRescheduleLine_def
        odd_action_def or_else_def lit_def Let_def)

text \<open>
  C4, as the code has it. With a structured adjusted action in the response whose title,
  date, start and end time convert to text, the line is the template of the call's
  language filled with the title (the language's default title when the action has
  none), the date, the start and end time, and the time zone \<open>America/Toronto\<close>; it is
  not empty. Without an action, the line is the trimmed text of the response, or of the
  request when the response has none. A non-empty line, when the input text is still the
  one the call was made with, is appended to the input text (on a new line when that is
  not empty), the draft of the index is emptied, and an analyze call in text mode on the
  merged text is issued. An empty line changes nothing but the loading flag: nothing is
  appended, the draft stays, no call is issued.
\<close>

theorem C4_reschedule_line_merged:
  "(adj_action d = Some a \<and>
    field_text a ''title'' (default_title (lang c)) = Inr t \<and>
    field_text a ''date'' [] = Inr dt \<and>
    field_text a ''start_time'' [] = Inr st \<and>
    field_text a ''end_time'' [] = Inr en \<longrightarrow>
      normalizedLine c body d =
        Inr (line_template (lang c) t dt st en (lit ''America/Toronto'')) \<and>
      line_template (lang c) t dt st en (lit ''America/Toronto'') \<noteq> []) \<and>
   (adj_action d = None \<longrightarrow>
      normalizedLine c body d = Inr (trim (or_str (user_text d) (or_str (ab_text body) [])))) \<and>
   (normalizedLine c body d = Inr [] \<longrightarrow>
      handleReschedule_resolved c i body d s =
        s\<lparr>rescheduleLoading := AList.update i False (rescheduleLoading s)\<rparr>) \<and>
   (normalizedLine c body d = Inr line \<and> line \<noteq> [] \<and> inputText s = inputText c \<longrightarrow>
      handleReschedule_resolved c i body d s =
        s\<lparr>inputText := merged (inputText s) line,
          isProcessing := True, runResult := None, confirmResult := None,
          rescheduleInputs := AList.update i [] (rescheduleInputs s),
          inflight := inflight s @
            [RunCall \<lparr>rb_mode = TextMode, rb_locale = lang c, rb_audio_base64 = None,
                      rb_text = Some (merged (inputText s) line)\<rparr> (Some i)]\<rparr>)"
proof (intro conjI impI)
  assume h: "adj_action d = Some a \<and>
    field_text a ''title'' (default_title (lang c)) = Inr t \<and>
    field_text a ''date'' [] = Inr dt \<and>
    field_text a ''start_time'' [] = Inr st \<and>
    field_text a ''end_time'' [] = Inr en"
  then have "buildRescheduleLine c a (trim (or_str (user_text d) (or_str (ab_text body) []))) =
      Inr (line_template (lang c) t dt st en (lit ''America/Toronto''))"
    by (intro buildRescheduleLine_text) simp_all
  with h show "normalizedLine c body d =
      Inr (line_template (lang c) t dt st en (lit ''America/Toronto''))"
    by (simp add: normalizedLine_def Let_def)
  show "line_template (lang c) t dt st en (lit ''America/Toronto'') \<noteq> []"
    by (rule line_template_ends)
next
  assume "adj_action d = None"
  then show "normalizedLine c body d =
      Inr (trim (or_str (user_text d) (or_str (ab_text body) [])))"
    by (simp add: normalizedLine_def Let_def)
next
  assume "normalizedLine c body d = Inr []"
  then show "handleReschedule_resolved c i body d s =
      s\<lparr>rescheduleLoading := AList.update i False (rescheduleLoading s)\<rparr>"
    by (simp add: handleReschedule_resolved_def reschedule_finally_def)
next
  assume "normalizedLine c body d = Inr line \<and> line \<noteq> [] \<and> inputText s = inputText c"
  then show "handleReschedule_resolved c i body d s =
        s\<lparr>inputText := merged (inputText s) line,
          isProcessing := True, runResult := None, confirmResult := None,
          rescheduleInputs := AList.update i [] (rescheduleInputs s),
          inflight := inflight s @
            [RunCall \<lparr>rb_mode = TextMode, rb_locale = lang c, rb_audio_base64 = None,
                      rb_text = Some (merged (inputText s) line)\<rparr> (Some i)]\<rparr>"
    by (cases s)
       (simp add: handleReschedule_resolved_def appendToAnalyzeInput_def handleRun_issue_def
          run_request_def merged_def Let_def)
qed

text \<open>The correction of the blocked meeting, typed as text: the line of the template is
  appended to the input and analyzed.\<close>

theorem C4_witness:
  "normalizedLine (render blocked_state) demo_adjust_body
      \<lparr>user_text = Some (lit ''move to 3pm''), adj_action = Some moved_action\<rparr> =
     Inr (lit ''Reschedule update: move '' @ [34] @ lit ''Demo'' @ [34] @
          lit '' to 2026-02-14 15:00-16:00 (Timezone: America/Toronto).'') \<and>
   handleReschedule_resolved (render blocked_state) 0 demo_adjust_body
      \<lparr>user_text = Some (lit ''move to 3pm''), adj_action = Some moved_action\<rparr> blocked_state =
     blocked_state\<lparr>inputText :=
         lit ''a'' @ [10] @ lit ''Reschedule update: move '' @ [34] @ lit ''Demo'' @ [34] @
         lit '' to 2026-02-14 15:00-16:00 (Timezone: America/Toronto).'',
       isProcessing := True, runResult := None, confirmResult := None,
       rescheduleInputs := [(0, [])],
       inflight :=
         [RunCall \<lparr>rb_mode = TextMode, rb_locale = En, rb_audio_base64 = None,
                   rb_text = Some (lit ''a'' @ [10] @ lit ''Reschedule update: move '' @ [34] @
                     lit ''Demo'' @ [34] @
                     lit '' to 2026-02-14 15:00-16:00 (Timezone: America/Toronto).'')\<rparr>
            (Some 0)]\<rparr> \<and>
   normalizedLine (render blocked_state) (demo_adjust_body\<lparr>ab_text := None\<rparr>)
      \<lparr>user_text = None, adj_action = None\<rparr> = Inr [] \<and>
   handleReschedule_resolved (render blocked_state) 0 (demo_adjust_body\<lparr>ab_text := None\<rparr>)
      \<lparr>user_text = None, adj_action = None\<rparr> blocked_state =
     blocked_state\<lparr>rescheduleLoading := [(0, False)]\<rparr>"
  using C4_reschedule_line_merged
      [where d = "\<lparr>user_text = Some (lit ''move to 3pm''), adj_action = Some moved_action\<rparr>"
         and a = moved_action and c = "render blocked_state" and t = "lit ''Demo''"
         and dt = "lit ''2026-02-14''" and st = "lit ''15:00''" and en = "lit ''16:00''"
         and body = demo_adjust_body and i = 0 and s = blocked_state
         and line = "lit ''Reschedule update: move '' @ [34] @ lit ''Demo'' @ [34] @
            lit '' to 2026-02-14 15:00-16:00 (Timezone: America/Toronto).''"]
    C4_reschedule_line_merged
      [where d = "\<lparr>user_text = None, adj_action = None\<rparr>"
         and a = moved_action and c = "render blocked_state" and t = "[]"
         and dt = "[]" and st = "[]" and en = "[]"
         and body = "demo_adjust_body\<lparr>ab_text := None\<rparr>" and i = 0 and s = blocked_state
         and line = "[]"]
  by (simp add: line_template_def field_text_def default_title_def or_else_def or_str_def
        merged_def moved_action_def demo_action_def demo_adjust_body_def blocked_state_def
        init_def render_def view.truncate_def trim_def lit_def)

lemma empty_correction_reached:
  "run_events to_empty_correction init =
     Some (blocked_state\<lparr>rescheduleInputs := [(0, lit ''later'')],
        rescheduleLoading := [(0, False)],
        recorders := [\<lparr>rec_site = Reschedule 0, rec_state = Delivered,
           rec_view = render (blocked_state\<lparr>rescheduleInputs := [(0, lit ''later'')]\<rparr>)\<rparr>]\<rparr>)"
  by (simp only: to_empty_correction_def after_blocked)
     (simp add: blocked_state_def handler_defs event_defs demo_defs)

text \<open>The claim fails as stated: the response of a recorded correction carries neither
  text nor action, the resolved line is empty, and then nothing is appended to the input,
  the draft of index 0 is not cleared and no analyze call is issued.\<close>

theorem C4_empty_line_not_merged:
  "map_option inputText (run_events to_empty_correction init) = Some (lit ''a'') \<and>
   map_option rescheduleInputs (run_events to_empty_correction init) =
     Some [(0, lit ''later'')] \<and>
   map_option inflight (run_events to_empty_correction init) = Some []"
  by (simp only: empty_correction_reached) (simp add: blocked_state_def init_def)

section \<open>The renderer escapes its input (C10)\<close>

lemma replace_g_Nil: "replace_g c r [] = []"
  by (simp add: replace_g_def)

lemma replace_g_append: "replace_g c r (xs @ ys) = replace_g c r xs @ replace_g c r ys"
  by (simp add: replace_g_def)

lemma escapeHtml_Nil: "escapeHtml [] = []"
  by (simp add: escapeHtml_def replace_g_def)

lemma escapeHtml_append: "escapeHtml (xs @ ys) = escapeHtml xs @ escapeHtml ys"
  by (simp add: escapeHtml_def replace_g_append)

lemma escapeHtml_single: "escapeHtml [c] = entity_of c"
  by (simp add: escapeHtml_def entity_of_def replace_g_def lit_def)

lemma escapeHtml_charwise: "escapeHtml s = concat (map entity_of s)"
proof (induction s)
  case Nil
  show ?case by (simp add: escapeHtml_Nil)
next
  case (Cons c s)
  have "escapeHtml (c # s) = escapeHtml ([c] @ s)" by simp
  also have "\<dots> = entity_of c @ escapeHtml s"
    by (simp only: escapeHtml_append escapeHtml_single)
  finally show ?case using Cons.IH by simp
qed

lemma entity_of_clean: "x \<in> set (entity_of c) \<Longrightarrow> x \<noteq> 60 \<and> x \<noteq> 62 \<and> x \<noteq> 34 \<and> x \<noteq> 39"
  by (auto simp: entity_of_def lit_def split: if_splits)

lemma escapeHtml_clean: "x \<in> set (escapeHtml s) \<Longrightarrow> x \<noteq> 60 \<and> x \<noteq> 62 \<and> x \<noteq> 34 \<and> x \<noteq> 39"
  by (auto simp: escapeHtml_charwise dest: entity_of_clean)

lemma scan_text_clean:
  "\<forall>x\<in>set xs. x \<noteq> 60 \<Longrightarrow> scan_text False (xs @ r) = xs @ scan_text False r"
  by (induction xs) auto

lemma scan_tags_clean:
  "\<forall>x\<in>set xs. x \<noteq> 60 \<Longrightarrow> scan_tags None (xs @ r) = scan_tags None r"
  by (induction xs) auto

lemma scan_text_wrappers:
  "scan_text False (lit ''<p>'' @ r) = scan_text False r"
  "scan_text False (lit ''</p>'' @ r) = scan_text False r"
  "scan_text False (lit ''<br/>'' @ r) = scan_text False r"
  by (simp_all add: lit_def)

lemma scan_tags_wrappers:
  "scan_tags None (lit ''<p>'' @ r) = lit ''<p>'' # scan_tags None r"
  "scan_tags None (lit ''</p>'' @ r) = lit ''</p>'' # scan_tags None r"
  "scan_tags None (lit ''<br/>'' @ r) = lit ''<br/>'' # scan_tags None r"
  by (simp_all add: lit_def)

lemma scan_text_lines:
  "\<forall>l\<in>set ls. \<forall>x\<in>set l. x \<noteq> 60 \<Longrightarrow>
   scan_text False (join (lit ''<br/>'') ls @ r) = concat ls @ scan_text False r"
  by (induction "lit ''<br/>''" ls rule: join.induct)
     (simp_all add: scan_text_clean scan_text_wrappers)

lemma scan_tags_lines:
  "\<forall>l\<in>set ls. \<forall>x\<in>set l. x \<noteq> 60 \<Longrightarrow>
   set (scan_tags None (join (lit ''<br/>'') ls @ r)) \<subseteq> {lit ''<br/>''} \<union> set (scan_tags None r)"
  by (induction "lit ''<br/>''" ls rule: join.induct)
     (auto simp add: scan_tags_clean scan_tags_wrappers)

lemma scan_text_blocks:
  "scan_text False (concat (map render_block bs) @ r) =
     concat (map (\<lambda>b. concat (map escapeHtml (split_on [10] b))) bs) @ scan_text False r"
proof (induction bs)
  case Nil show ?case by simp
next
  case (Cons b bs)
  have clean: "\<forall>l\<in>set (map escapeHtml (split_on [10] b)). \<forall>x\<in>set l. x \<noteq> 60"
    by (auto dest: escapeHtml_clean)
  show ?case using Cons.IH
    by (simp add: render_block_def scan_text_wrappers scan_text_lines [OF clean])
qed

lemma scan_tags_blocks:
  "set (scan_tags None (concat (map render_block bs) @ r)) \<subseteq>
     {lit ''<p>'', lit ''<br/>'', lit ''</p>''} \<union> set (scan_tags None r)"
proof (induction bs)
  case Nil show ?case by auto
next
  case (Cons b bs)
  let ?rest = "concat (map render_block bs) @ r"
  let ?ls = "map escapeHtml (split_on [10] b)"
  have clean: "\<forall>l\<in>set ?ls. \<forall>x\<in>set l. x \<noteq> 60"
    by (auto dest: escapeHtml_clean)
  have unfold: "concat (map render_block (b # bs)) @ r =
      lit ''<p>'' @ (join (lit ''<br/>'') ?ls @ (lit ''</p>'' @ ?rest))"
    by (simp add: render_block_def)
  have "set (scan_tags None (join (lit ''<br/>'') ?ls @ (lit ''</p>'' @ ?rest)))
        \<subseteq> {lit ''<br/>''} \<union> set (scan_tags None (lit ''</p>'' @ ?rest))"
    by (rule scan_tags_lines [OF clean])
  then have "set (scan_tags None (concat (map render_block (b # bs)) @ r))
        \<subseteq> {lit ''<p>'', lit ''<br/>'', lit ''</p>''} \<union> set (scan_tags None ?rest)"
    unfolding unfold scan_tags_wrappers by auto
  with Cons.IH show ?case by blast
qed

lemma concat_split_single: "concat (split_on [c] s) = filter (\<lambda>x. x \<noteq> c) s"
  by (induction "[c]" s rule: split_on.induct) (auto split: list.splits)

lemma take_one_eq: "take (Suc 0) cs = [c] \<longleftrightarrow> (\<exists>t. cs = c # t)"
  by (cases cs) auto

lemma filter_split_nlnl:
  "filter (\<lambda>x. x \<noteq> c) (concat (split_on [c, c] s)) = filter (\<lambda>x. x \<noteq> c) s"
  by (induction "[c, c]" s rule: split_on.induct) (auto simp: take_one_eq split: list.splits)


lemma format_as_blocks:
  "text \<noteq> [] \<Longrightarrow>
   formatPlainTextAsHtml text = concat (map render_block (split_on [10, 10] (trim text)))"
proof -
  have "(\<lambda>block. lit ''<p>'' @ join (lit ''<br/>'') (map escapeHtml (split_on [10] block)) @
           lit ''</p>'') = render_block"
    by (simp add: fun_eq_iff render_block_def)
  then show "text \<noteq> [] \<Longrightarrow> ?thesis"
    by (simp add: formatPlainTextAsHtml_def)
qed

lemma concat_escapeHtml: "concat (map escapeHtml ls) = escapeHtml (concat ls)"
  by (induction ls) (simp_all add: escapeHtml_Nil escapeHtml_append)

lemma text_of_blocks:
  "scan_text False (concat (map render_block bs)) =
     escapeHtml (filter (\<lambda>x. x \<noteq> 10) (concat bs))"
proof -
  have "scan_text False (concat (map render_block bs) @ []) =
          concat (map (\<lambda>b. concat (map escapeHtml (split_on [10] b))) bs) @ scan_text False []"
    by (rule scan_text_blocks)
  also have "\<dots> = concat (map (\<lambda>b. escapeHtml (filter (\<lambda>x. x \<noteq> 10) b)) bs)"
    by (simp add: concat_escapeHtml concat_split_single)
  also have "\<dots> = escapeHtml (filter (\<lambda>x. x \<noteq> 10) (concat bs))"
    by (induction bs) (simp_all add: escapeHtml_Nil escapeHtml_append)
  finally show ?thesis by simp
qed

text \<open>
  C10. For every input string the plain-text renderer escapes each of the five characters
  to its entity: \<open>escapeHtml\<close> is the character-wise entity map; the text of the output
  (what lies outside its tags) is the trimmed input without its line breaks, entity by
  entity, and contains none of \<open><\<close>, \<open>>\<close>, the double and the single quote; the tags of
  the output are among \<open><p>\<close>, \<open><br/>\<close> and \<open></p>\<close>; the empty string gives the
  empty string.
\<close>

theorem C10_formatPlainTextAsHtml_escapes:
  "formatPlainTextAsHtml [] = [] \<and>
   escapeHtml s = concat (map entity_of s) \<and>
   text_of (formatPlainTextAsHtml text) =
     concat (map entity_of (filter (\<lambda>x. x \<noteq> 10) (trim text))) \<and>
   set (text_of (formatPlainTextAsHtml text)) \<inter> {60, 62, 34, 39} = {} \<and>
   set (tags_of (formatPlainTextAsHtml text)) \<subseteq> {lit ''<p>'', lit ''<br/>'', lit ''</p>''}"
proof (cases "text = []")
  case True
  then show ?thesis
    by (simp add: formatPlainTextAsHtml_def escapeHtml_charwise text_of_def tags_of_def trim_def)
next
  case False
  let ?bs = "split_on [10, 10] (trim text)"
  have fmt: "formatPlainTextAsHtml text = concat (map render_block ?bs)"
    using False by (rule format_as_blocks)
  have body_eq: "text_of (formatPlainTextAsHtml text) =
      escapeHtml (filter (\<lambda>x. x \<noteq> 10) (trim text))"
    by (simp add: fmt text_of_def text_of_blocks filter_split_nlnl)
  have clean: "set (text_of (formatPlainTextAsHtml text)) \<inter> {60, 62, 34, 39} = {}"
    unfolding body_eq using escapeHtml_clean by blast
  have "set (scan_tags None (concat (map render_block ?bs) @ [])) \<subseteq>
      {lit ''<p>'', lit ''<br/>'', lit ''</p>''} \<union> set (scan_tags None [])"
    by (rule scan_tags_blocks)
  then have tags: "set (tags_of (formatPlainTextAsHtml text)) \<subseteq>
      {lit ''<p>'', lit ''<br/>'', lit ''</p>''}"
    by (simp add: fmt tags_of_def)
  show ?thesis
    using body_eq clean tags
    by (simp add: formatPlainTextAsHtml_def escapeHtml_charwise)
qed

theorem C10_witness:
  "formatPlainTextAsHtml [] = [] \<and>
   escapeHtml (lit ''a<b'') = concat (map entity_of (lit ''a<b'')) \<and>
   text_of (formatPlainTextAsHtml sample_text) =
     concat (map entity_of (filter (\<lambda>x. x \<noteq> 10) (trim sample_text))) \<and>
   set (text_of (formatPlainTextAsHtml sample_text)) \<inter> {60, 62, 34, 39} = {} \<and>
   set (tags_of (formatPlainTextAsHtml sample_text)) \<subseteq>
     {lit ''<p>'', lit ''<br/>'', lit ''</p>''}"
  by (rule C10_formatPlainTextAsHtml_escapes [of "lit ''a<b''" sample_text])

text \<open>The sample text, rendered; the preview shows this rendering when the draft has no
  \<open>html\<close> of its own, and that \<open>html\<close> as it is otherwise.\<close>

lemma sample_text_rendered:
  "formatPlainTextAsHtml sample_text =
     lit ''<p>a&lt;b</p><p><br/>c &amp; d&quot;<br/>&#039;x</p>''"
  by (simp add: sample_text_def formatPlainTextAsHtml_def trim_def is_ws_def lit_def
        escapeHtml_def replace_g_def)

lemma email_body_cases:
  "or_str (rd_html r) [] = [] \<Longrightarrow> email_body r = formatPlainTextAsHtml (or_str (rd_text r) [])"
  "or_str (rd_html r) [] \<noteq> [] \<Longrightarrow> email_body r = or_str (rd_html r) []"
  by (auto simp: email_body_def or_str_def split: option.splits if_splits)

end
